theory Spec2Isabelle
  imports Complex_Main
begin

section \<open>Data model\<close>

text \<open>
  The editor keeps three.js objects in mutable refs and compares them by identity
  (\<^verbatim>\<open>obj !== selectedEntityRef.current\<close>, \<^verbatim>\<open>set.has(primary)\<close>,
  \<^verbatim>\<open>child.userData.sketch === sketch\<close>). Objects therefore live in an explicit
  store: a \<open>ref\<close> is the identity of a JavaScript object, the \<open>heap\<close> maps it to the
  object's fields. JavaScript numbers are modelled as reals (no NaN, no infinities, no
  rounding); an optional field is an \<open>option\<close>, \<open>None\<close> standing for \<^verbatim>\<open>undefined\<close>.
\<close>

type_synonym ref = nat

datatype vec3 = Vector3 (vx: real) (vy: real) (vz: real)

datatype vec2 = Vector2 (px: real) (py: real)

text \<open>
  A sketch as the sketch list holds it: \<^verbatim>\<open>{ type, width, height, radius, center }\<close>.
  The \<^verbatim>\<open>start\<close>/\<^verbatim>\<open>end\<close> corners that a committed rectangle inherits from the
  in-progress sketch are never read again and are left out.
\<close>

record sketch =
  stype :: string
  swidth :: "real option"
  sheight :: "real option"
  sradius :: "real option"
  scenter :: "vec3 option"

datatype dimensions = Dimensions (dwidth: real) (dheight: real) (ddepth: real)

record face =
  fcenter :: vec3
  fnormal :: vec3
  fvertices :: "vec3 list"
  farea :: real
  fsize :: real

record edge =
  estart :: vec3
  eend :: vec3

text \<open>The 2D outline handed to \<^verbatim>\<open>THREE.ExtrudeGeometry\<close>, and the geometry constructors used.\<close>

datatype shape2D = RectangleOutline "real option" "real option" | CircleOutline "real option"

datatype geometry =
    BoxGeometry real real real
  | SphereGeometry real nat nat
  | CylinderGeometry real real real nat
  | ExtrudeGeometry shape2D real

text \<open>
  \<^verbatim>\<open>createFacesFromGeometry\<close> and \<^verbatim>\<open>createEdgesFromGeometry\<close> read the triangulation
  three.js computes for a geometry. The triangulation is not part of the repository, so
  the pair of functions is a parameter of the model.
\<close>

type_synonym mesher = "geometry \<Rightarrow> face list \<times> edge list"

definition createFacesFromGeometry :: "mesher \<Rightarrow> geometry \<Rightarrow> face list" where
  "createFacesFromGeometry M g = fst (M g)"

definition createEdgesFromGeometry :: "mesher \<Rightarrow> geometry \<Rightarrow> edge list" where
  "createEdgesFromGeometry M g = snd (M g)"

text \<open>
  A three.js object (\<^verbatim>\<open>THREE.Mesh\<close> or \<^verbatim>\<open>THREE.Group\<close>) with its \<^verbatim>\<open>userData\<close>.
  \<open>material\<close> is the hex value of \<^verbatim>\<open>material.color\<close> (what \<^verbatim>\<open>getHex\<close> reads and
  \<^verbatim>\<open>setHex\<close> writes); a \<^verbatim>\<open>THREE.Group\<close> has neither material nor geometry. An
  empty \<open>utype\<close> stands for an absent \<^verbatim>\<open>userData.type\<close>; both are falsy.
\<close>

record shape =
  utype :: string
  position :: vec3
  rotation :: vec3
  scale :: vec3
  material :: "nat option"
  udimensions :: "dimensions option"
  uradius :: "real option"
  uheight :: "real option"
  uextrusionHeight :: "real option"
  usketchData :: "sketch option"
  geometry :: "geometry option"
  ufaces :: "face list option"
  uedges :: "edge list option"
  children :: "ref list"

text \<open>
  The selected entity. A face or an edge is a JavaScript object stored in the
  \<^verbatim>\<open>userData.faces\<close> / \<^verbatim>\<open>userData.edges\<close> array of one shape; it is identified by that
  shape and its index there, which is also the \<^verbatim>\<open>parentObject\<close> back-reference the
  selection handler writes when it picks the face or edge.
\<close>

datatype entity = EShape ref | EFace ref nat | EEdge ref nat

subsection \<open>The persisted scene document\<close>

record jdimensions =
  jwidth :: "real option"
  jheight :: "real option"
  jdepth :: "real option"

record objData =
  oid :: nat
  otype :: string
  oposition :: "vec3 option"
  orotation :: "vec3 option"
  oscale :: "vec3 option"
  omaterial :: "nat option"
  odimensions :: "jdimensions option"
  oradius :: "real option"
  oheight :: "real option"
  oextrusionHeight :: "real option"
  osketchData :: "sketch option"

text \<open>
  \<open>omaterial\<close> is \<^verbatim>\<open>material.color\<close> (absent material and absent colour are both falsy
  for the loader). An entry of \<^verbatim>\<open>sketches\<close> is its \<^verbatim>\<open>id\<close> paired with the remaining
  fields. An absent \<^verbatim>\<open>objects\<close> or \<^verbatim>\<open>sketches\<close> array skips the loop just as an empty
  one does.
\<close>

record sceneData =
  version :: string
  dobjects :: "objData list"
  dsketches :: "(nat \<times> sketch) list"

subsection \<open>Editor state\<close>

text \<open>
  The refs of \<^verbatim>\<open>ThreeCanvas\<close> that the modelled handlers read or write, the two React
  state variables \<open>selectedEntity\<close>/\<open>selectedType\<close>, the object store, and the
  messages passed to \<^verbatim>\<open>console.warn\<close>/\<^verbatim>\<open>console.error\<close>. A snapshot is the JSON text
  of a scene document; \<^verbatim>\<open>JSON.stringify\<close>/\<^verbatim>\<open>JSON.parse\<close> are taken as inverse to each
  other, so the stacks hold documents. The last element of a stack is its top.
  The scene graph itself (what is rendered, the single highlight overlay, sketch
  visualisation meshes) is not modelled.
\<close>

record state =
  heap :: "ref \<Rightarrow> shape"
  nextRef :: ref
  objectsRef :: "ref list"
  sketchesRef :: "(ref \<times> sketch) list"
  selectedEntity :: "entity option"
  selectedType :: "string option"
  selectedEntityRef :: "entity option"
  selectedTypeRef :: "string option"
  multiSelectedRef :: "ref list"
  multiHighlightsRef :: "ref list"
  undoStackRef :: "sceneData list"
  redoStackRef :: "sceneData list"
  isDraggingRef :: bool
  sketchModeRef :: bool
  sketchToolRef :: "string option"
  pendingShapeTypeRef :: "string option"
  snapToGridRef :: bool
  gridSizeRef :: real
  console :: "string list"

datatype error = TypeError

text \<open>A handler either returns or throws; in both cases the mutations made so far stay.\<close>

datatype outcome = Returned state | Threw state

definition stateOf :: "outcome \<Rightarrow> state" where
  "stateOf out = (case out of Returned s \<Rightarrow> s | Threw s \<Rightarrow> s)"

definition alloc :: "shape \<Rightarrow> state \<Rightarrow> ref \<times> state" where
  "alloc sh s = (nextRef s, s\<lparr>heap := (heap s)(nextRef s := sh), nextRef := Suc (nextRef s)\<rparr>)"

section \<open>Geometry builders (shapeUtils)\<close>

text \<open>\<^verbatim>\<open>a || d\<close> on an optional number: zero and \<^verbatim>\<open>undefined\<close> are falsy.\<close>

definition jsOr :: "real option \<Rightarrow> real \<Rightarrow> real" where
  "jsOr a d = (case a of None \<Rightarrow> d | Some v \<Rightarrow> if v = 0 then d else v)"

text \<open>A default parameter value applies to \<^verbatim>\<open>undefined\<close> only.\<close>

definition orDefault :: "real option \<Rightarrow> real \<Rightarrow> real" where
  "orDefault a d = (case a of None \<Rightarrow> d | Some v \<Rightarrow> v)"

definition newMesh :: "geometry \<Rightarrow> nat \<Rightarrow> shape" where
  "newMesh g color =
     \<lparr> utype = [], position = Vector3 0 0 0, rotation = Vector3 0 0 0, scale = Vector3 1 1 1,
       material = Some color, udimensions = None, uradius = None, uheight = None,
       uextrusionHeight = None, usketchData = None, geometry = Some g,
       ufaces = None, uedges = None, children = [] \<rparr>"

definition createBox :: "mesher \<Rightarrow> real option \<Rightarrow> real option \<Rightarrow> real option \<Rightarrow> shape" where
  "createBox M width height depth =
     (let w = orDefault width 1; h = orDefault height 1; d = orDefault depth 1;
          g = BoxGeometry w h d
      in (newMesh g 0x2194ce)
           \<lparr> ufaces := Some (createFacesFromGeometry M g),
             uedges := Some (createEdgesFromGeometry M g),
             utype := ''box'',
             udimensions := Some (Dimensions w h d) \<rparr>)"

definition createSphere :: "mesher \<Rightarrow> real option \<Rightarrow> shape" where
  "createSphere M radius =
     (let r = orDefault radius 0.7; g = SphereGeometry r 32 32
      in (newMesh g 0xcc221a)
           \<lparr> ufaces := Some (createFacesFromGeometry M g),
             uedges := Some (createEdgesFromGeometry M g),
             utype := ''sphere'',
             uradius := Some r \<rparr>)"

definition createCylinder :: "mesher \<Rightarrow> real option \<Rightarrow> real option \<Rightarrow> shape" where
  "createCylinder M radius height =
     (let r = orDefault radius 0.5; h = orDefault height 1; g = CylinderGeometry r r h 32
      in (newMesh g 0x22cc77)
           \<lparr> ufaces := Some (createFacesFromGeometry M g),
             uedges := Some (createEdgesFromGeometry M g),
             utype := ''cylinder'',
             uradius := Some r,
             uheight := Some h \<rparr>)"

definition updateShapeGeometry :: "mesher \<Rightarrow> shape \<Rightarrow> shape" where
  "updateShapeGeometry M sh =
     (case geometry sh of
        None \<Rightarrow> sh
      | Some g \<Rightarrow> sh\<lparr> ufaces := Some (createFacesFromGeometry M g),
                      uedges := Some (createEdgesFromGeometry M g) \<rparr>)"

section \<open>Scene codec (ioUtils)\<close>

definition saveCenter :: "vec3 \<Rightarrow> vec3" where
  "saveCenter c = Vector3 (jsOr (Some (vx c)) 0) (jsOr (Some (vy c)) 0) (jsOr (Some (vz c)) 0)"

text \<open>
  One iteration of the \<^verbatim>\<open>objects.forEach\<close> of \<^verbatim>\<open>saveSceneToJSON\<close>. Reading
  \<^verbatim>\<open>obj.material.color\<close> of an object without material throws a TypeError.
\<close>

definition saveObject :: "nat \<Rightarrow> shape \<Rightarrow> error + objData" where
  "saveObject index obj =
     (case material obj of
        None \<Rightarrow> Inl TypeError
      | Some color \<Rightarrow>
          (let objData =
                 \<lparr> oid = index,
                   otype = (if utype obj = [] then ''unknown'' else utype obj),
                   oposition = Some (Vector3 (vx (position obj)) (vy (position obj)) (vz (position obj))),
                   orotation = Some (Vector3 (vx (rotation obj)) (vy (rotation obj)) (vz (rotation obj))),
                   oscale = Some (Vector3 (vx (scale obj)) (vy (scale obj)) (vz (scale obj))),
                   omaterial = Some color,
                   odimensions = None, oradius = None, oheight = None,
                   oextrusionHeight = None, osketchData = None \<rparr>
           in Inr
             (if utype obj = ''box'' then
                objData\<lparr> odimensions :=
                  Some (case udimensions obj of
                          Some d \<Rightarrow> \<lparr> jwidth = Some (dwidth d), jheight = Some (dheight d),
                                      jdepth = Some (ddepth d) \<rparr>
                        | None \<Rightarrow> \<lparr> jwidth = Some 1, jheight = Some 1, jdepth = Some 1 \<rparr>) \<rparr>
              else if utype obj = ''sphere'' then
                objData\<lparr> oradius := Some (jsOr (uradius obj) 0.7) \<rparr>
              else if utype obj = ''cylinder'' then
                objData\<lparr> oradius := Some (jsOr (uradius obj) 0.5),
                         oheight := Some (jsOr (uheight obj) 1) \<rparr>
              else if utype obj = ''extruded'' then
                (let objData' = objData\<lparr> otype := ''extruded'',
                                         oextrusionHeight := Some (jsOr (uextrusionHeight obj) 2) \<rparr>
                 in case usketchData obj of
                      None \<Rightarrow> objData'
                    | Some sd \<Rightarrow>
                        objData'\<lparr> osketchData :=
                          Some \<lparr> stype = stype sd, swidth = swidth sd, sheight = sheight sd,
                                 sradius = sradius sd,
                                 scenter = map_option saveCenter (scenter sd) \<rparr> \<rparr>)
              else objData)))"

fun saveObjects :: "nat \<Rightarrow> shape list \<Rightarrow> error + objData list" where
  "saveObjects index [] = Inr []"
| "saveObjects index (obj # rest) =
     (case saveObject index obj of
        Inl e \<Rightarrow> Inl e
      | Inr objData \<Rightarrow>
          (case saveObjects (Suc index) rest of
             Inl e \<Rightarrow> Inl e
           | Inr others \<Rightarrow> Inr (objData # others)))"

definition saveSketch :: "nat \<Rightarrow> sketch \<Rightarrow> nat \<times> sketch" where
  "saveSketch index sk =
     (let sketchData = \<lparr> stype = stype sk, swidth = None, sheight = None,
                         sradius = None, scenter = None \<rparr>
      in (index,
          if stype sk = ''rectangle'' then
            sketchData\<lparr> swidth := swidth sk, sheight := sheight sk,
                        scenter := map_option saveCenter (scenter sk) \<rparr>
          else if stype sk = ''circle'' then
            sketchData\<lparr> sradius := sradius sk,
                        scenter := map_option saveCenter (scenter sk) \<rparr>
          else sketchData))"

fun saveSketches :: "nat \<Rightarrow> sketch list \<Rightarrow> (nat \<times> sketch) list" where
  "saveSketches index [] = []"
| "saveSketches index (sk # rest) = saveSketch index sk # saveSketches (Suc index) rest"

definition saveSceneToJSON :: "shape list \<Rightarrow> sketch list \<Rightarrow> error + sceneData" where
  "saveSceneToJSON objects sketches =
     (case saveObjects 0 objects of
        Inl e \<Rightarrow> Inl e
      | Inr objs \<Rightarrow>
          Inr \<lparr> version = ''1.0'', dobjects = objs, dsketches = saveSketches 0 sketches \<rparr>)"

text \<open>
  \<^verbatim>\<open>recreateExtrudedShape\<close>: throws when \<^verbatim>\<open>objData.sketchData\<close> is missing, returns
  \<^verbatim>\<open>null\<close> (\<open>Inr None\<close>) for a profile that is neither rectangle nor circle.
\<close>

definition recreateExtrudedShape :: "mesher \<Rightarrow> objData \<Rightarrow> error + shape option" where
  "recreateExtrudedShape M objData =
     (case osketchData objData of
        None \<Rightarrow> Inl TypeError
      | Some sketchData \<Rightarrow>
          (let height = jsOr (oextrusionHeight objData) 2;
               shape2D =
                 (if stype sketchData = ''rectangle''
                    then Some (RectangleOutline (swidth sketchData) (sheight sketchData))
                  else if stype sketchData = ''circle''
                    then Some (CircleOutline (sradius sketchData))
                  else None)
           in case shape2D of
                None \<Rightarrow> Inr None
              | Some outline \<Rightarrow>
                  Inr (Some (updateShapeGeometry M
                    ((newMesh (ExtrudeGeometry outline height) 0x00aa00)
                       \<lparr> utype := ''extruded'',
                         uextrusionHeight := Some height,
                         usketchData := Some sketchData \<rparr>)))))"

text \<open>
  The part of the \<^verbatim>\<open>data.objects.forEach\<close> body after the \<^verbatim>\<open>switch\<close>: transforms and
  colour are applied, the shape is added to the scene and pushed onto the object list.
\<close>

definition applyLoaded :: "mesher \<Rightarrow> objData \<Rightarrow> shape \<Rightarrow> shape" where
  "applyLoaded M objData shape0 =
     (let shape1 = (case oposition objData of None \<Rightarrow> shape0
                    | Some p \<Rightarrow> shape0\<lparr> position := Vector3 (vx p) (vy p) (vz p) \<rparr>);
          shape2 = (case orotation objData of None \<Rightarrow> shape1
                    | Some r \<Rightarrow> shape1\<lparr> rotation := Vector3 (vx r) (vy r) (vz r) \<rparr>);
          shape3 = (case oscale objData of None \<Rightarrow> shape2
                    | Some k \<Rightarrow> shape2\<lparr> scale := Vector3 (vx k) (vy k) (vz k) \<rparr>);
          shape4 = (case omaterial objData of None \<Rightarrow> shape3
                    | Some c \<Rightarrow> if c = 0 then shape3 else shape3\<lparr> material := Some c \<rparr>)
      in updateShapeGeometry M shape4)"

definition pushObject :: "shape \<Rightarrow> state \<Rightarrow> state" where
  "pushObject sh s =
     (let (r, s') = alloc sh s in s'\<lparr> objectsRef := objectsRef s' @ [r] \<rparr>)"

text \<open>
  One iteration of \<^verbatim>\<open>data.objects.forEach\<close>. An unknown \<^verbatim>\<open>type\<close> warns and returns
  from the callback. A \<^verbatim>\<open>null\<close> shape (extruded entry with an unknown profile) is
  dereferenced at the latest by \<^verbatim>\<open>updateShapeGeometry\<close>, which throws.
\<close>

definition loadObject :: "mesher \<Rightarrow> objData \<Rightarrow> state \<Rightarrow> outcome" where
  "loadObject M objData s =
     (if otype objData = ''box'' then
        (let dims = (case odimensions objData of
                       Some d \<Rightarrow> d
                     | None \<Rightarrow> \<lparr> jwidth = Some 1, jheight = Some 1, jdepth = Some 1 \<rparr>)
         in Returned (pushObject
              (applyLoaded M objData (createBox M (jwidth dims) (jheight dims) (jdepth dims))) s))
      else if otype objData = ''sphere'' then
        Returned (pushObject
          (applyLoaded M objData (createSphere M (Some (jsOr (oradius objData) 0.7)))) s)
      else if otype objData = ''cylinder'' then
        Returned (pushObject
          (applyLoaded M objData
             (createCylinder M (Some (jsOr (oradius objData) 0.5))
                               (Some (jsOr (oheight objData) 1)))) s)
      else if otype objData = ''extruded'' then
        (case recreateExtrudedShape M objData of
           Inl e \<Rightarrow> Threw s
         | Inr None \<Rightarrow> Threw s
         | Inr (Some shape0) \<Rightarrow> Returned (pushObject (applyLoaded M objData shape0) s))
      else Returned (s\<lparr> console := console s @ [''Unknown object type:''] \<rparr>))"

fun loadObjects :: "mesher \<Rightarrow> objData list \<Rightarrow> state \<Rightarrow> outcome" where
  "loadObjects M [] s = Returned s"
| "loadObjects M (objData # rest) s =
     (case loadObject M objData s of
        Threw s' \<Rightarrow> Threw s'
      | Returned s' \<Rightarrow> loadObjects M rest s')"

text \<open>
  One iteration of \<^verbatim>\<open>data.sketches.forEach\<close>. Reading \<^verbatim>\<open>sketchData.center.x\<close> of a
  rectangle or circle record without \<^verbatim>\<open>center\<close> throws. The new sketch object gets a
  fresh identity.
\<close>

definition loadSketch :: "nat \<times> sketch \<Rightarrow> state \<Rightarrow> outcome" where
  "loadSketch entry s =
     (let sketchData = snd entry;
          sketch0 = \<lparr> stype = stype sketchData, swidth = None, sheight = None,
                      sradius = None, scenter = None \<rparr>;
          built =
            (if stype sketchData = ''rectangle'' then
               (case scenter sketchData of
                  None \<Rightarrow> Inl TypeError
                | Some c \<Rightarrow> Inr (sketch0\<lparr> swidth := swidth sketchData,
                                           sheight := sheight sketchData,
                                           scenter := Some (Vector3 (vx c) (vy c) (vz c)) \<rparr>))
             else if stype sketchData = ''circle'' then
               (case scenter sketchData of
                  None \<Rightarrow> Inl TypeError
                | Some c \<Rightarrow> Inr (sketch0\<lparr> sradius := sradius sketchData,
                                           scenter := Some (Vector3 (vx c) (vy c) (vz c)) \<rparr>))
             else Inr sketch0)
      in case built of
           Inl e \<Rightarrow> Threw s
         | Inr sketch1 \<Rightarrow>
             Returned (s\<lparr> sketchesRef := sketchesRef s @ [(nextRef s, sketch1)],
                          nextRef := Suc (nextRef s) \<rparr>))"

fun loadSketches :: "(nat \<times> sketch) list \<Rightarrow> state \<Rightarrow> outcome" where
  "loadSketches [] s = Returned s"
| "loadSketches (entry # rest) s =
     (case loadSketch entry s of
        Threw s' \<Rightarrow> Threw s'
      | Returned s' \<Rightarrow> loadSketches rest s')"

definition loadSceneFromJSON :: "mesher \<Rightarrow> sceneData \<Rightarrow> state \<Rightarrow> outcome" where
  "loadSceneFromJSON M data s =
     (case loadObjects M (dobjects data) (s\<lparr> objectsRef := [], sketchesRef := [] \<rparr>) of
        Threw s' \<Rightarrow> Threw s'
      | Returned s' \<Rightarrow> loadSketches (dsketches data) s')"

section \<open>History manager\<close>

definition storeShapes :: "state \<Rightarrow> shape list" where
  "storeShapes s = map (heap s) (objectsRef s)"

definition storeSketches :: "state \<Rightarrow> sketch list" where
  "storeSketches s = map snd (sketchesRef s)"

definition snapshotScene :: "state \<Rightarrow> sceneData option \<times> state" where
  "snapshotScene s =
     (case saveSceneToJSON (storeShapes s) (storeSketches s) of
        Inr sceneData \<Rightarrow> (Some sceneData, s)
      | Inl e \<Rightarrow> (None, s\<lparr> console := console s @ [''Snapshot failed''] \<rparr>))"

definition clearHighlight :: "state \<Rightarrow> state" where
  "clearHighlight s = s\<lparr> multiHighlightsRef := [] \<rparr>"

definition restoreSceneFromSnapshot :: "mesher \<Rightarrow> sceneData \<Rightarrow> state \<Rightarrow> state" where
  "restoreSceneFromSnapshot M snapshot s =
     (case loadSceneFromJSON M snapshot s of
        Returned s' \<Rightarrow>
          (clearHighlight s')\<lparr> selectedEntity := None, selectedType := None,
                               selectedEntityRef := None, selectedTypeRef := None \<rparr>
      | Threw s' \<Rightarrow> s'\<lparr> console := console s' @ [''Restore failed''] \<rparr>)"

definition pushHistory :: "state \<Rightarrow> state" where
  "pushHistory s =
     (case snapshotScene s of
        (Some snap, s') \<Rightarrow> s'\<lparr> undoStackRef := undoStackRef s' @ [snap], redoStackRef := [] \<rparr>
      | (None, s') \<Rightarrow> s')"

definition undoHandler :: "mesher \<Rightarrow> state \<Rightarrow> state" where
  "undoHandler M s =
     (if length (undoStackRef s) > 0 then
        (let snap = last (undoStackRef s);
             s1 = s\<lparr> undoStackRef := butlast (undoStackRef s) \<rparr>;
             (current, s2) = snapshotScene s1;
             s3 = (case current of
                     Some c \<Rightarrow> s2\<lparr> redoStackRef := redoStackRef s2 @ [c] \<rparr>
                   | None \<Rightarrow> s2)
         in restoreSceneFromSnapshot M snap s3)
      else s)"

definition redoHandler :: "mesher \<Rightarrow> state \<Rightarrow> state" where
  "redoHandler M s =
     (if length (redoStackRef s) > 0 then
        (let snap = last (redoStackRef s);
             s1 = s\<lparr> redoStackRef := butlast (redoStackRef s) \<rparr>;
             (current, s2) = snapshotScene s1;
             s3 = (case current of
                     Some c \<Rightarrow> s2\<lparr> undoStackRef := undoStackRef s2 @ [c] \<rparr>
                   | None \<Rightarrow> s2)
         in restoreSceneFromSnapshot M snap s3)
      else s)"

section \<open>Sketch and extrusion pipeline\<close>

text \<open>
  \<^verbatim>\<open>handleExtrude(sketchIndex, height = 2)\<close>. The index is an integer; an absent height
  takes the default. Copying or reading the \<^verbatim>\<open>center\<close> of a sketch that has none
  throws, after the history push. \<^verbatim>\<open>highlightEntity\<close> starts with \<^verbatim>\<open>clearHighlight\<close>.
\<close>

definition extrudedMesh :: "mesher \<Rightarrow> sketch \<Rightarrow> shape2D \<Rightarrow> real \<Rightarrow> vec3 \<Rightarrow> shape" where
  "extrudedMesh M sketch outline height c =
     updateShapeGeometry M
       ((newMesh (ExtrudeGeometry outline height) 0x00aa00)
          \<lparr> position := Vector3 (vx c) (height / 2) (vz c),
            utype := ''extruded'',
            uextrusionHeight := Some height,
            usketchData := Some sketch \<rparr>)"

definition splice1 :: "nat \<Rightarrow> 'a list \<Rightarrow> 'a list" where
  "splice1 i xs = take i xs @ drop (Suc i) xs"

definition finishExtrude :: "nat \<Rightarrow> shape \<Rightarrow> state \<Rightarrow> state" where
  "finishExtrude i sh s =
     (let s1 = pushObject sh s;
          r = last (objectsRef s1);
          s2 = s1\<lparr> sketchesRef := splice1 i (sketchesRef s1), sketchToolRef := None \<rparr>
      in (clearHighlight s2)\<lparr> selectedEntity := Some (EShape r), selectedType := Some ''shape'',
                               selectedEntityRef := Some (EShape r),
                               selectedTypeRef := Some ''shape'' \<rparr>)"

definition handleExtrude :: "mesher \<Rightarrow> int \<Rightarrow> real option \<Rightarrow> state \<Rightarrow> outcome" where
  "handleExtrude M sketchIndex heightArg s =
     (if sketchIndex < 0 \<or> sketchIndex \<ge> int (length (sketchesRef s)) then Returned s
      else
        (let height = orDefault heightArg 2;
             s1 = pushHistory s;
             sketch = snd (sketchesRef s1 ! nat sketchIndex)
         in if stype sketch = ''rectangle'' then
              (case scenter sketch of
                 None \<Rightarrow> Threw s1
               | Some c \<Rightarrow>
                   Returned (finishExtrude (nat sketchIndex)
                     (extrudedMesh M sketch
                        (RectangleOutline (swidth sketch) (sheight sketch)) height c) s1))
            else if stype sketch = ''circle'' then
              (case scenter sketch of
                 None \<Rightarrow> Threw s1
               | Some c \<Rightarrow>
                   Returned (finishExtrude (nat sketchIndex)
                     (extrudedMesh M sketch (CircleOutline (sradius sketch)) height c) s1))
            else Returned s1))"

section \<open>Picking engine and selection\<close>

text \<open>
  A pointer event, and what three.js and the DOM answer while it is handled: the
  canvas rectangle, the two ground-plane intersections tried by \<^verbatim>\<open>getMouseOnPlane\<close>, the
  nearest hit of \<^verbatim>\<open>raycaster.intersectObjects(objectsRef.current, true)\<close>, the world matrix
  of an object and the camera projection. The nearest hit is given as the hit object
  followed by its ancestors below the scene (the \<^verbatim>\<open>parent\<close> chain the handler walks) and
  its \<^verbatim>\<open>faceIndex\<close>. The cast is recursive, so the hit object may be a child of a store
  object that is not in the object list itself, such as the outline of a shape selected
  as a body; a hit on such a line object has no face index.
\<close>

record pointerEvent =
  clientX :: real
  clientY :: real
  ctrlKey :: bool
  metaKey :: bool
  shiftKey :: bool

record viewport =
  rectLeft :: real
  rectTop :: real
  rectWidth :: real
  rectHeight :: real
  planeMeshHit :: "vec3 option"
  mathPlaneHit :: "vec3 option"
  rayHit :: "(ref list \<times> int option) option"
  matrixWorld :: "ref \<Rightarrow> vec3 \<Rightarrow> vec3"
  project :: "vec3 \<Rightarrow> vec3"

definition truthy :: "string option \<Rightarrow> bool" where
  "truthy v = (case v of None \<Rightarrow> False | Some t \<Rightarrow> t \<noteq> [])"

definition mathRound :: "real \<Rightarrow> real" where
  "mathRound a = of_int \<lfloor>a + 1 / 2\<rfloor>"

definition snapPoint :: "state \<Rightarrow> vec3 \<Rightarrow> vec3" where
  "snapPoint s point =
     (if snapToGridRef s then
        Vector3 (mathRound (vx point / gridSizeRef s) * gridSizeRef s) (vy point)
                (mathRound (vz point / gridSizeRef s) * gridSizeRef s)
      else point)"

definition getMouseOnPlane :: "viewport \<Rightarrow> state \<Rightarrow> vec3 option" where
  "getMouseOnPlane V s =
     (case planeMeshHit V of
        Some point \<Rightarrow> Some (snapPoint s point)
      | None \<Rightarrow>
          (case mathPlaneHit V of
             Some point \<Rightarrow> Some (snapPoint s point)
           | None \<Rightarrow> None))"

definition setAdd :: "ref \<Rightarrow> ref list \<Rightarrow> ref list" where
  "setAdd r xs = (if r \<in> set xs then xs else xs @ [r])"

definition setDelete :: "ref \<Rightarrow> ref list \<Rightarrow> ref list" where
  "setDelete r xs = filter (\<lambda>o'. o' \<noteq> r) xs"

definition addMultiHighlightForShape :: "ref \<Rightarrow> state \<Rightarrow> state" where
  "addMultiHighlightForShape obj s = s\<lparr> multiHighlightsRef := setAdd obj (multiHighlightsRef s) \<rparr>"

definition removeMultiHighlightForShape :: "ref \<Rightarrow> state \<Rightarrow> state" where
  "removeMultiHighlightForShape obj s =
     s\<lparr> multiHighlightsRef := setDelete obj (multiHighlightsRef s) \<rparr>"

definition createShapeAtPosition :: "mesher \<Rightarrow> string \<Rightarrow> vec3 \<Rightarrow> state \<Rightarrow> state" where
  "createShapeAtPosition M type pos s =
     (let made =
            (if type = ''box'' then Some (createBox M None None None, 0.5)
             else if type = ''sphere'' then Some (createSphere M None, 0.7)
             else if type = ''cylinder'' then Some (createCylinder M None None, 0.5)
             else None)
      in case made of
           None \<Rightarrow> s\<lparr> console := console s @ [''Unknown shape type:''] \<rparr>
         | Some (shape0, yPos) \<Rightarrow>
             (let s1 = pushObject (shape0\<lparr> position := Vector3 (vx pos) yPos (vz pos) \<rparr>) s;
                  r = last (objectsRef s1)
              in (clearHighlight s1)\<lparr> selectedEntity := Some (EShape r),
                                       selectedType := Some ''shape'' \<rparr>))"

definition vlength :: "vec3 \<Rightarrow> real" where
  "vlength v = sqrt (vx v * vx v + vy v * vy v + vz v * vz v)"

definition subVectors :: "vec3 \<Rightarrow> vec3 \<Rightarrow> vec3" where
  "subVectors a b = Vector3 (vx a - vx b) (vy a - vy b) (vz a - vz b)"

definition edgeLength :: "viewport \<Rightarrow> ref \<Rightarrow> edge \<Rightarrow> real" where
  "edgeLength V obj e =
     vlength (subVectors (matrixWorld V obj (eend e)) (matrixWorld V obj (estart e)))"

definition toPx :: "viewport \<Rightarrow> vec3 \<Rightarrow> vec2" where
  "toPx V ndc = Vector2 ((vx ndc + 1) * 0.5 * rectWidth V) ((- vy ndc + 1) * 0.5 * rectHeight V)"

definition distancePx :: "viewport \<Rightarrow> pointerEvent \<Rightarrow> ref \<Rightarrow> edge \<Rightarrow> real" where
  "distancePx V ev obj e =
     (let startPx = toPx V (project V (matrixWorld V obj (estart e)));
          endPx = toPx V (project V (matrixWorld V obj (eend e)));
          mousePx = Vector2 (clientX ev - rectLeft V) (clientY ev - rectTop V);
          ab = Vector2 (px endPx - px startPx) (py endPx - py startPx);
          ap = Vector2 (px mousePx - px startPx) (py mousePx - py startPx);
          abLenSq = px ab * px ab + py ab * py ab;
          t0 = (if abLenSq > 0 then (px ap * px ab + py ap * py ab) / abLenSq else 0);
          t = max 0 (min 1 t0);
          closestPx = Vector2 (px startPx + px ab * t) (py startPx + py ab * t);
          dx = px closestPx - px mousePx;
          dy = py closestPx - py mousePx
      in sqrt (dx * dx + dy * dy))"

text \<open>
  The \<^verbatim>\<open>for (const edge of obj.userData.edges)\<close> loop. The accumulator is the pair of
  \<^verbatim>\<open>closestEdgeDistance\<close> and the index of the edge selected so far; \<open>None\<close> is the
  initial \<^verbatim>\<open>Infinity\<close> with nothing selected.
\<close>

fun edgeLoop ::
  "viewport \<Rightarrow> pointerEvent \<Rightarrow> ref \<Rightarrow> nat \<Rightarrow> edge list \<Rightarrow> (real \<times> nat) option \<Rightarrow> (real \<times> nat) option"
where
  "edgeLoop V ev obj i [] best = best"
| "edgeLoop V ev obj i (e # rest) best =
     (if edgeLength V obj e < 0.001 then edgeLoop V ev obj (Suc i) rest best
      else if distancePx V ev obj e \<le> 3
              \<and> (case best of None \<Rightarrow> True | Some (closest, k) \<Rightarrow> distancePx V ev obj e < closest)
        then edgeLoop V ev obj (Suc i) rest (Some (distancePx V ev obj e, i))
      else edgeLoop V ev obj (Suc i) rest best)"

definition candidateObject :: "viewport \<Rightarrow> state \<Rightarrow> ref option" where
  "candidateObject V s =
     (case rayHit V of
        None \<Rightarrow> None
      | Some (chain, faceIndex) \<Rightarrow> find (\<lambda>current. current \<in> set (objectsRef s)) chain)"

text \<open>Steps 1 to 3 of the handler: face with ctrl/cmd, else edge, else the whole body.\<close>

definition pick :: "viewport \<Rightarrow> pointerEvent \<Rightarrow> state \<Rightarrow> (entity \<times> string) option" where
  "pick V ev s =
     (let isFaceSelectionMode = (ctrlKey ev \<or> metaKey ev) in
      case candidateObject V s of
        None \<Rightarrow> None
      | Some cand \<Rightarrow>
          (let selected1 =
                 (if isFaceSelectionMode then
                    (case (ufaces (heap s cand), rayHit V) of
                       (Some faces, Some (chain, Some faceIndex)) \<Rightarrow>
                         if faceIndex \<ge> 0 \<and> faceIndex < int (length faces)
                         then Some (EFace cand (nat faceIndex), ''face'') else None
                     | _ \<Rightarrow> None)
                  else None);
               selected2 =
                 (if selected1 = None \<and> \<not> isFaceSelectionMode then
                    (case uedges (heap s cand) of
                       Some edges \<Rightarrow>
                         (case edgeLoop V ev cand 0 edges None of
                            Some (closest, k) \<Rightarrow> Some (EEdge cand k, ''edge'')
                          | None \<Rightarrow> None)
                     | None \<Rightarrow> None)
                  else selected1)
           in case selected2 of
                Some sel \<Rightarrow> Some sel
              | None \<Rightarrow> Some (EShape cand, ''shape'')))"

definition ownerOf :: "entity \<Rightarrow> ref" where
  "ownerOf en = (case en of EShape r \<Rightarrow> r | EFace r k \<Rightarrow> r | EEdge r k \<Rightarrow> r)"

definition primaryShapeInStore :: "state \<Rightarrow> ref option" where
  "primaryShapeInStore s =
     (case selectedEntityRef s of
        Some (EShape r) \<Rightarrow> if r \<in> set (objectsRef s) then Some r else None
      | _ \<Rightarrow> None)"

text \<open>
  The multi-select branch: the primary selection is absorbed if it is a shape of the
  store not yet in the set, then the clicked shape is toggled.
\<close>

definition toggleMulti :: "ref \<Rightarrow> state \<Rightarrow> state" where
  "toggleMulti shapeToToggle s =
     (let s1 = (case primaryShapeInStore s of
                  Some primary \<Rightarrow>
                    if primary \<notin> set (multiSelectedRef s)
                    then addMultiHighlightForShape primary
                           (s\<lparr> multiSelectedRef := setAdd primary (multiSelectedRef s) \<rparr>)
                    else s
                | None \<Rightarrow> s);
          s2 = (if shapeToToggle \<in> set (multiSelectedRef s1)
                then removeMultiHighlightForShape shapeToToggle
                       (s1\<lparr> multiSelectedRef := setDelete shapeToToggle (multiSelectedRef s1) \<rparr>)
                else addMultiHighlightForShape shapeToToggle
                       (s1\<lparr> multiSelectedRef := setAdd shapeToToggle (multiSelectedRef s1) \<rparr>))
      in s2\<lparr> selectedEntity := Some (EShape shapeToToggle), selectedType := Some ''shape'',
             selectedEntityRef := Some (EShape shapeToToggle),
             selectedTypeRef := Some ''shape'' \<rparr>)"

definition applySelection :: "pointerEvent \<Rightarrow> (entity \<times> string) option \<Rightarrow> state \<Rightarrow> state" where
  "applySelection ev sel s =
     (case sel of
        Some (selected, selType) \<Rightarrow>
          if shiftKey ev then toggleMulti (ownerOf selected) s
          else
            (let s1 = (if length (multiSelectedRef s) > 0
                       then (fold removeMultiHighlightForShape (multiSelectedRef s) s)
                              \<lparr> multiSelectedRef := [] \<rparr>
                       else s)
             in (clearHighlight s1)\<lparr> selectedEntity := Some selected, selectedType := Some selType,
                                      selectedEntityRef := Some selected,
                                      selectedTypeRef := Some selType \<rparr>)
      | None \<Rightarrow> (clearHighlight s)\<lparr> selectedEntity := None, selectedType := None \<rparr>)"

definition handleSelection :: "mesher \<Rightarrow> viewport \<Rightarrow> pointerEvent \<Rightarrow> state \<Rightarrow> state" where
  "handleSelection M V ev s =
     (if isDraggingRef s then s
      else if sketchModeRef s \<and> truthy (sketchToolRef s) then s
      else
        (case (if truthy (pendingShapeTypeRef s) then pendingShapeTypeRef s else None) of
           Some shapeType \<Rightarrow>
             (case getMouseOnPlane V s of
                Some pos \<Rightarrow> createShapeAtPosition M shapeType pos (s\<lparr> pendingShapeTypeRef := None \<rparr>)
              | None \<Rightarrow>
                  (let s1 = s\<lparr> pendingShapeTypeRef := None \<rparr>
                   in applySelection ev (pick V ev s1) s1))
         | None \<Rightarrow> applySelection ev (pick V ev s) s))"

text \<open>The two \<^verbatim>\<open>useEffect\<close> hooks that copy the React selection state into its refs.\<close>

definition flushEffects :: "state \<Rightarrow> state" where
  "flushEffects s = s\<lparr> selectedEntityRef := selectedEntity s, selectedTypeRef := selectedType s \<rparr>"

section \<open>Commands: shape creation, delete, grouping\<close>

definition handleShapeCreation :: "string \<Rightarrow> state \<Rightarrow> state" where
  "handleShapeCreation type s =
     (if sketchModeRef s then s else s\<lparr> pendingShapeTypeRef := Some type \<rparr>)"

definition createShapeHandler :: "string \<Rightarrow> state \<Rightarrow> state" where
  "createShapeHandler type s = handleShapeCreation type (pushHistory s)"

text \<open>
  The branch of \<^verbatim>\<open>handleKeyDown\<close> taken for the keys \<^verbatim>\<open>delete\<close> and \<^verbatim>\<open>backspace\<close>.
  The filter compares store entries with the selected object by identity.
\<close>

definition handleKeyDownDelete :: "state \<Rightarrow> state" where
  "handleKeyDownDelete s =
     (case selectedEntityRef s of
        None \<Rightarrow> s
      | Some selected \<Rightarrow>
          if selectedTypeRef s = Some ''shape'' then
            (let s1 = pushHistory s;
                 s2 = s1\<lparr> objectsRef :=
                           filter (\<lambda>obj. EShape obj \<noteq> selected) (objectsRef s1) \<rparr>
             in (clearHighlight
                   (s2\<lparr> selectedEntity := None, selectedEntityRef := None,
                        selectedType := None, selectedTypeRef := None \<rparr>)))
          else s)"

definition newGroup :: shape where
  "newGroup =
     \<lparr> utype = ''group'', position = Vector3 0 0 0, rotation = Vector3 0 0 0,
       scale = Vector3 1 1 1, material = None, udimensions = None, uradius = None,
       uheight = None, uextrusionHeight = None, usketchData = None, geometry = None,
       ufaces = None, uedges = None, children = [] \<rparr>"

text \<open>One step of \<^verbatim>\<open>set.forEach\<close> in \<^verbatim>\<open>groupSelectedHandler\<close>.\<close>

definition attachToGroup :: "ref \<Rightarrow> ref \<Rightarrow> state \<Rightarrow> state" where
  "attachToGroup grp obj s =
     (let s1 = removeMultiHighlightForShape obj s;
          g = heap s1 grp
      in s1\<lparr> heap := (heap s1)(grp := g\<lparr> children := children g @ [obj] \<rparr>),
             objectsRef := filter (\<lambda>o'. o' \<noteq> obj) (objectsRef s1) \<rparr>)"

definition groupSelectedHandler :: "state \<Rightarrow> state" where
  "groupSelectedHandler s =
     (let s0 = (if length (multiSelectedRef s) < 2 then
                  (case primaryShapeInStore s of
                     Some primary \<Rightarrow>
                       if primary \<notin> set (multiSelectedRef s)
                       then s\<lparr> multiSelectedRef := setAdd primary (multiSelectedRef s) \<rparr>
                       else s
                   | None \<Rightarrow> s)
                else s)
      in if length (multiSelectedRef s0) < 2 then s0
         else
           (let (grp, s1) = alloc newGroup s0;
                s2 = pushHistory s1;
                s3 = fold (attachToGroup grp) (multiSelectedRef s2) s2;
                s4 = s3\<lparr> objectsRef := objectsRef s3 @ [grp], multiSelectedRef := [],
                         selectedEntity := Some (EShape grp), selectedType := Some ''shape'',
                         selectedEntityRef := Some (EShape grp),
                         selectedTypeRef := Some ''shape'' \<rparr>
            in clearHighlight s4))"

subsection \<open>Sample scenes\<close>

text \<open>
  Concrete scenes, built from the initial state by the handlers above, on which the
  theorems below are instantiated. Before anything is allocated every reference of the
  initial heap holds a placeholder. \<open>noMesh\<close> and \<open>wireMesh\<close> are two choices of the
  triangulation parameter; \<open>placeAt\<close> and \<open>rayAt\<close> are viewports with an identity
  world matrix and projection on a 200 by 200 canvas, \<open>shrunk\<close> scales the world
  matrix by 1/10000.

  With no transform mode and no sketch tool active, pressing the primary button reaches
  \<open>handleSelection\<close> twice: \<^verbatim>\<open>handlePointerDown\<close> calls it on \<^verbatim>\<open>pointerdown\<close>, and
  \<^verbatim>\<open>onMouseDown\<close> calls it again on the \<^verbatim>\<open>mousedown\<close> that follows. \<open>press\<close> is
  that pair of calls. When the first call places a pending shape, the second one
  picks at the same point, where the ray now meets the new shape.
\<close>

definition noMesh :: mesher where
  "noMesh g = ([], [])"

definition initialState :: state where
  "initialState =
     \<lparr> heap = (\<lambda>r. newGroup), nextRef = 0, objectsRef = [], sketchesRef = [],
       selectedEntity = None, selectedType = None,
       selectedEntityRef = None, selectedTypeRef = None,
       multiSelectedRef = [], multiHighlightsRef = [],
       undoStackRef = [], redoStackRef = [],
       isDraggingRef = False, sketchModeRef = False, sketchToolRef = None,
       pendingShapeTypeRef = None, snapToGridRef = True, gridSizeRef = 0.5,
       console = [] \<rparr>"

definition placeAt :: "vec3 \<Rightarrow> ref \<Rightarrow> viewport" where
  "placeAt p n = \<lparr> rectLeft = 0, rectTop = 0, rectWidth = 200, rectHeight = 200,
      planeMeshHit = Some p, mathPlaneHit = None, rayHit = Some ([n], Some 0),
      matrixWorld = (\<lambda>r v. v), project = (\<lambda>v. v) \<rparr>"

definition rayAt :: "(ref list \<times> int option) option \<Rightarrow> viewport" where
  "rayAt h = \<lparr> rectLeft = 0, rectTop = 0, rectWidth = 200, rectHeight = 200,
      planeMeshHit = None, mathPlaneHit = None, rayHit = h,
      matrixWorld = (\<lambda>r v. v), project = (\<lambda>v. v) \<rparr>"

definition shrunk :: "viewport \<Rightarrow> viewport" where
  "shrunk V = V\<lparr> matrixWorld := (\<lambda>r v. Vector3 (vx v / 10000) (vy v / 10000) (vz v / 10000)) \<rparr>"

definition click :: "real \<Rightarrow> real \<Rightarrow> bool \<Rightarrow> bool \<Rightarrow> pointerEvent" where
  "click x y ctrl shift =
     \<lparr> clientX = x, clientY = y, ctrlKey = ctrl, metaKey = False, shiftKey = shift \<rparr>"

definition press :: "mesher \<Rightarrow> viewport \<Rightarrow> pointerEvent \<Rightarrow> state \<Rightarrow> state" where
  "press M V ev s =
     flushEffects (handleSelection M V ev (flushEffects (handleSelection M V ev s)))"

definition place :: "string \<Rightarrow> vec3 \<Rightarrow> ref \<Rightarrow> state \<Rightarrow> state" where
  "place type p n s =
     press noMesh (placeAt p n) (click 100 100 False False) (createShapeHandler type s)"

definition oneBox :: state where
  "oneBox = place ''box'' (Vector3 0 0 0) 0 initialState"

definition twoShapes :: state where
  "twoShapes = place ''sphere'' (Vector3 2 0 0) 1 oneBox"

definition boxSelected :: state where
  "boxSelected = press noMesh (rayAt (Some ([0], Some 0))) (click 100 100 False False) twoShapes"

definition boxAbsorbed :: state where
  "boxAbsorbed = groupSelectedHandler boxSelected"

definition sphereToggled :: state where
  "sphereToggled = press noMesh (rayAt (Some ([1], Some 0))) (click 150 100 False True) boxSelected"

definition grouped :: state where
  "grouped = groupSelectedHandler sphereToggled"

definition edgeUp :: edge where
  "edgeUp = \<lparr> estart = Vector3 0 0 0, eend = Vector3 0 1 0 \<rparr>"

definition edgeRight :: edge where
  "edgeRight = \<lparr> estart = Vector3 0 0 0, eend = Vector3 1 0 0 \<rparr>"

definition cornerFace :: face where
  "cornerFace = \<lparr> fcenter = Vector3 (1/3) (1/3) 0, fnormal = Vector3 0 0 1,
       fvertices = [Vector3 0 0 0, Vector3 1 0 0, Vector3 0 1 0], farea = 1/2, fsize = sqrt 2 \<rparr>"

definition wireMesh :: mesher where
  "wireMesh g = ([cornerFace], [edgeUp, edgeRight])"

definition wireBox :: state where
  "wireBox = press wireMesh (placeAt (Vector3 0 0 0) 0) (click 100 100 False False)
              (createShapeHandler ''box'' initialState)"


definition sampleRect :: sketch where
  "sampleRect = \<lparr> stype = ''rectangle'', swidth = Some 2, sheight = Some 3, sradius = None,
       scenter = Some (Vector3 1 0 1.5) \<rparr>"

definition sketchDoc :: sceneData where
  "sketchDoc = \<lparr> version = ''1.0'', dobjects = [], dsketches = [(0, sampleRect)] \<rparr>"

definition sketched :: state where
  "sketched = stateOf (loadSceneFromJSON noMesh sketchDoc initialState)"

definition triangleSketch :: sketch where
  "triangleSketch = \<lparr> stype = ''triangle'', swidth = None, sheight = None, sradius = None,
       scenter = None \<rparr>"

definition triangleDoc :: sceneData where
  "triangleDoc = \<lparr> version = ''1.0'', dobjects = [], dsketches = [(0, triangleSketch)] \<rparr>"

definition pyramidDoc :: sceneData where
  "pyramidDoc = \<lparr> version = ''1.0'',
      dobjects = [\<lparr> oid = 0, otype = ''pyramid'', oposition = None, orotation = None,
                    oscale = None, omaterial = None, odimensions = None, oradius = None,
                    oheight = None, oextrusionHeight = None, osketchData = None \<rparr>],
      dsketches = [] \<rparr>"

definition circleNoCenter :: sketch where
  "circleNoCenter = \<lparr> stype = ''circle'', swidth = None, sheight = None, sradius = Some 1,
       scenter = None \<rparr>"

definition brokenDoc :: sceneData where
  "brokenDoc = \<lparr> version = ''1.0'', dobjects = [], dsketches = [(0, sampleRect), (1, circleNoCenter)] \<rparr>"

definition sampleCircle :: sketch where
  "sampleCircle = \<lparr> stype = ''circle'', swidth = None, sheight = None, sradius = Some 1,
       scenter = Some (Vector3 4 0 4) \<rparr>"

definition kindsDoc :: sceneData where
  "kindsDoc = \<lparr> version = ''1.0'', dobjects = [],
       dsketches = [(0, sampleRect), (1, sampleCircle), (2, sampleRect)] \<rparr>"

definition kindsLoaded :: state where
  "kindsLoaded = stateOf (loadSceneFromJSON noMesh kindsDoc initialState)"

definition allKinds :: state where
  "allKinds = stateOf (handleExtrude noMesh 2 (Some 1)
      (place ''cylinder'' (Vector3 4 0 0) 5 (place ''sphere'' (Vector3 2 0 0) 4
        (place ''box'' (Vector3 0 0 0) 3
           (stateOf (loadSceneFromJSON noMesh kindsDoc initialState))))))"

definition undone :: state where
  "undone = undoHandler noMesh twoShapes"

definition groupEntry :: objData where
  "groupEntry = \<lparr> oid = 0, otype = ''group'', oposition = Some (Vector3 0 0 0),
       orotation = Some (Vector3 0 0 0), oscale = Some (Vector3 1 1 1), omaterial = None,
       odimensions = None, oradius = None, oheight = None, oextrusionHeight = None,
       osketchData = None \<rparr>"

section \<open>Auxiliary predicates\<close>

text \<open>
  The allocation discipline of the store: every object and sketch in the lists has been
  allocated, and the sketch list holds pairwise different sketch objects.
\<close>

definition wfStore :: "state \<Rightarrow> bool" where
  "wfStore s = (list_all (\<lambda>r. r < nextRef s) (objectsRef s)
     \<and> list_all (\<lambda>r. r < nextRef s) (map fst (sketchesRef s))
     \<and> distinct (map fst (sketchesRef s)))"

text \<open>
  Everything in the store was allocated at or after \<open>n\<close>.
\<close>

definition freshFrom :: "ref \<Rightarrow> state \<Rightarrow> bool" where
  "freshFrom n s = (n \<le> nextRef s
     \<and> list_all (\<lambda>r. n \<le> r \<and> r < nextRef s) (objectsRef s)
     \<and> list_all (\<lambda>r. n \<le> r \<and> r < nextRef s) (map fst (sketchesRef s)))"



text \<open>
  The fields of a shape that the claims call observable: kind, dimensions and other
  kind-specific parameters, position, rotation, scale, material colour and extrusion
  data. \<open>observable\<close> blanks the rest (geometry, derived faces and edges, children).
\<close>

definition observable :: "shape \<Rightarrow> shape" where
  "observable sh = sh\<lparr> geometry := None, ufaces := None, uedges := None, children := [] \<rparr>"

text \<open>
  Shapes and sketches as the editor builds them: a mesh of one of the four persisted
  kinds with a material of non-zero colour, carrying exactly the parameters of its
  kind, none of them zero where the codec substitutes a default for a falsy value; a
  rectangle or circle sketch with a centre.
\<close>

definition codecShape :: "shape \<Rightarrow> bool" where
  "codecShape sh =
     ((case material sh of None \<Rightarrow> False | Some c \<Rightarrow> c \<noteq> 0)
      \<and> (if utype sh = ''box'' then
            udimensions sh \<noteq> None \<and> uradius sh = None \<and> uheight sh = None
            \<and> uextrusionHeight sh = None \<and> usketchData sh = None
          else if utype sh = ''sphere'' then
            (case uradius sh of None \<Rightarrow> False | Some r \<Rightarrow> r \<noteq> 0)
            \<and> udimensions sh = None \<and> uheight sh = None
            \<and> uextrusionHeight sh = None \<and> usketchData sh = None
          else if utype sh = ''cylinder'' then
            (case uradius sh of None \<Rightarrow> False | Some r \<Rightarrow> r \<noteq> 0)
            \<and> (case uheight sh of None \<Rightarrow> False | Some h \<Rightarrow> h \<noteq> 0)
            \<and> udimensions sh = None
            \<and> uextrusionHeight sh = None \<and> usketchData sh = None
          else if utype sh = ''extruded'' then
            (case uextrusionHeight sh of None \<Rightarrow> False | Some h \<Rightarrow> h \<noteq> 0)
            \<and> (case usketchData sh of
                  None \<Rightarrow> False
                | Some sd \<Rightarrow> stype sd = ''rectangle'' \<or> stype sd = ''circle'')
            \<and> udimensions sh = None \<and> uradius sh = None \<and> uheight sh = None
          else False))"

definition codecSketch :: "sketch \<Rightarrow> bool" where
  "codecSketch sk =
     (if stype sk = ''rectangle'' then sradius sk = None \<and> scenter sk \<noteq> None
      else if stype sk = ''circle'' then
        swidth sk = None \<and> sheight sk = None \<and> scenter sk \<noteq> None
      else False)"

definition stableStore :: "shape list \<Rightarrow> sketch list \<Rightarrow> bool" where
  "stableStore shapes sketches = (list_all codecShape shapes \<and> list_all codecSketch sketches)"

text \<open>Loading the entry \<open>od\<close> appends a fresh object with the observable fields of \<open>sh\<close>.\<close>

definition loadsBack :: "mesher \<Rightarrow> shape \<Rightarrow> objData \<Rightarrow> bool" where
  "loadsBack M sh od =
     (\<forall>s. \<exists>s'. loadObject M od s = Returned s'
        \<and> objectsRef s' = objectsRef s @ [nextRef s]
        \<and> nextRef s' = Suc (nextRef s)
        \<and> observable (heap s' (nextRef s)) = observable sh
        \<and> (\<forall>r. r \<noteq> nextRef s \<longrightarrow> heap s' r = heap s r)
        \<and> sketchesRef s' = sketchesRef s)"

text \<open>\<open>n\<close> undos followed by \<open>n\<close> redos.\<close>

definition undoRedo :: "mesher \<Rightarrow> nat \<Rightarrow> state \<Rightarrow> state" where
  "undoRedo M n s = (redoHandler M ^^ n) ((undoHandler M ^^ n) s)"

section \<open>Evaluation of the sample scenes\<close>

lemmas sample_defs = oneBox_def twoShapes_def boxSelected_def boxAbsorbed_def sphereToggled_def
  grouped_def wireBox_def press_def
  placeAt_def rayAt_def click_def shrunk_def initialState_def noMesh_def wireMesh_def
  sampleCircle_def kindsDoc_def place_def allKinds_def undone_def sampleRect_def groupEntry_def

lemmas handler_defs = flushEffects_def handleSelection_def createShapeHandler_def
  handleShapeCreation_def pushHistory_def snapshotScene_def saveSceneToJSON_def storeShapes_def storeSketches_def
  truthy_def getMouseOnPlane_def snapPoint_def mathRound_def createShapeAtPosition_def
  createBox_def createSphere_def createCylinder_def newMesh_def orDefault_def pushObject_def alloc_def clearHighlight_def
  createFacesFromGeometry_def createEdgesFromGeometry_def saveObject_def jsOr_def Let_def
  applySelection_def pick_def candidateObject_def toggleMulti_def ownerOf_def primaryShapeInStore_def
  setAdd_def setDelete_def addMultiHighlightForShape_def removeMultiHighlightForShape_def
  handleKeyDownDelete_def groupSelectedHandler_def attachToGroup_def newGroup_def
  undoHandler_def redoHandler_def restoreSceneFromSnapshot_def loadSceneFromJSON_def loadObject_def
  applyLoaded_def updateShapeGeometry_def loadSketch_def recreateExtrudedShape_def stateOf_def
  handleExtrude_def finishExtrude_def extrudedMesh_def splice1_def

lemma boxSelected_sel:
  "objectsRef boxSelected = [0, 1]" "multiSelectedRef boxSelected = []"
  "selectedEntityRef boxSelected = Some (EShape 0)" "selectedTypeRef boxSelected = Some ''shape''"
  by (simp_all add: sample_defs handler_defs)

lemma boxAbsorbed_sel:
  "objectsRef boxAbsorbed = [0, 1]" "multiSelectedRef boxAbsorbed = [0]"
  "selectedEntityRef boxAbsorbed = Some (EShape 0)" "selectedTypeRef boxAbsorbed = Some ''shape''"
  by (simp_all add: sample_defs handler_defs)

lemma sphereToggled_sel:
  "objectsRef sphereToggled = [0, 1]" "multiSelectedRef sphereToggled = [0]"
  "selectedEntityRef sphereToggled = Some (EShape 1)"
  "multiHighlightsRef sphereToggled = [0]"
  by (simp_all add: sample_defs handler_defs)

lemma grouped_store:
  "objectsRef grouped = [2]" "multiSelectedRef grouped = []" "children (heap grouped 2) = [0, 1]"
  "utype (heap grouped 2) = ''group''" "length (undoStackRef grouped) = 3" "redoStackRef grouped = []"
  by (simp_all add: sample_defs handler_defs)

lemma grouped_save: "saveSceneToJSON (storeShapes grouped) (storeSketches grouped) = Inl TypeError"
  by (simp add: sample_defs handler_defs)

lemma sketched_fields:
  "sketchesRef sketched = [(0, sampleRect)]" "objectsRef sketched = []" "nextRef sketched = 1"
  by (simp_all add: sketched_def sketchDoc_def sampleRect_def sample_defs handler_defs)














lemma kindsLoaded_fields:
  "sketchesRef kindsLoaded = [(0, sampleRect), (1, sampleCircle), (2, sampleRect)]"
  "objectsRef kindsLoaded = []" "nextRef kindsLoaded = 3"
  by (simp_all add: kindsLoaded_def sample_defs handler_defs)

lemma twoShapes_fields:
  "objectsRef twoShapes = [0, 1]" "sketchesRef twoShapes = []" "nextRef twoShapes = 2"
  by (simp_all add: sample_defs handler_defs)

section \<open>History push and extrusion guards\<close>

lemma pushHistory_sketchesRef: "sketchesRef (pushHistory s) = sketchesRef s"
  by (simp add: pushHistory_def snapshotScene_def split: sum.splits)

lemma pushHistory_store:
  "heap (pushHistory s) = heap s" "nextRef (pushHistory s) = nextRef s"
  "objectsRef (pushHistory s) = objectsRef s"
  by (simp_all add: pushHistory_def snapshotScene_def split: sum.splits)


text \<open>
  Claim C7. For an index that is negative or not less than the length of the sketch
  list, \<open>handleExtrude\<close> returns at once and leaves the whole editor state as it was:
  object store, sketch list, selection and both history stacks.
\<close>

theorem handleExtrude_bad_index_noop:
  "sketchIndex < 0 \<or> int (length (sketchesRef s)) \<le> sketchIndex \<Longrightarrow>
     handleExtrude M sketchIndex heightArg s = Returned s"
  by (auto simp: handleExtrude_def)

theorem handleExtrude_bad_index_noop_witness:
  "handleExtrude noMesh (- 1) (Some 2) sketched = Returned sketched
   \<and> handleExtrude noMesh 1 (Some 2) sketched = Returned sketched"
  using handleExtrude_bad_index_noop[of "- 1" sketched noMesh "Some 2"]
        handleExtrude_bad_index_noop[of 1 sketched noMesh "Some 2"]
  by (simp add: sketched_fields)

text \<open>
  Claim C8. When serialising the scene throws, \<open>snapshotScene\<close> yields no snapshot and
  \<open>pushHistory\<close> leaves both stacks untouched: nothing is pushed on the undo stack and
  the redo stack keeps its entries.
\<close>

theorem pushHistory_failed_snapshot:
  "saveSceneToJSON (storeShapes s) (storeSketches s) = Inl e \<Longrightarrow>
     fst (snapshotScene s) = None
     \<and> undoStackRef (pushHistory s) = undoStackRef s
     \<and> redoStackRef (pushHistory s) = redoStackRef s"
  by (simp add: pushHistory_def snapshotScene_def)

theorem pushHistory_failed_snapshot_witness:
  "saveSceneToJSON (storeShapes grouped) (storeSketches grouped) = Inl TypeError
   \<and> fst (snapshotScene grouped) = None
   \<and> undoStackRef (pushHistory grouped) = undoStackRef grouped
   \<and> redoStackRef (pushHistory grouped) = redoStackRef grouped"
  using pushHistory_failed_snapshot[of grouped TypeError] grouped_save
  by simp

section \<open>Extrusion\<close>

lemma splice1_length: "i < length xs \<Longrightarrow> Suc (length (splice1 i xs)) = length xs"
  by (simp add: splice1_def)

lemma splice1_distinct_notin:
  assumes "distinct (map f xs)" and "i < length xs"
  shows "f (xs ! i) \<notin> f ` set (splice1 i xs)"
proof -
  have "xs = take i xs @ (xs ! i) # drop (Suc i) xs"
    using assms(2) by (simp add: id_take_nth_drop)
  then have "distinct (map f (take i xs @ (xs ! i) # drop (Suc i) xs))"
    using assms(1) by simp
  then show ?thesis
    by (auto simp: splice1_def)
qed

text \<open>
  Claim C6, amended. In a well-allocated store, extruding the committed rectangle or circle
  sketch at index \<open>i\<close> with a positive height \<open>h\<close> returns normally; the sketch list becomes
  the old one without its entry \<open>i\<close> (one entry shorter, and the consumed sketch object
  is no longer in it, though another sketch object with an equal profile may be); exactly
  one object is appended to the store, a fresh one, while the earlier objects are
  unchanged; the new object is tagged \<open>extruded\<close>, keeps the consumed sketch as its sketch
  data and \<open>h\<close> as its extrusion height, and is the primary selection with kind \<open>shape\<close>.
\<close>

theorem handleExtrude_consumes_sketch:
  assumes idx: "i < length (sketchesRef s)"
    and sk: "sketchesRef s ! i = (r, sk)"
    and kind: "stype sk = ''rectangle'' \<or> stype sk = ''circle''"
    and center: "scenter sk = Some c"
    and h: "0 < h"
    and wf: "wfStore s"
  shows "\<exists>s'. handleExtrude M (int i) (Some h) s = Returned s'
     \<and> sketchesRef s' = take i (sketchesRef s) @ drop (Suc i) (sketchesRef s)
     \<and> Suc (length (sketchesRef s')) = length (sketchesRef s)
     \<and> r \<notin> fst ` set (sketchesRef s')
     \<and> objectsRef s' = objectsRef s @ [nextRef s]
     \<and> nextRef s \<notin> set (objectsRef s)
     \<and> map (heap s') (objectsRef s) = map (heap s) (objectsRef s)
     \<and> utype (heap s' (nextRef s)) = ''extruded''
     \<and> usketchData (heap s' (nextRef s)) = Some sk
     \<and> uextrusionHeight (heap s' (nextRef s)) = Some h
     \<and> selectedEntityRef s' = Some (EShape (nextRef s))
     \<and> selectedTypeRef s' = Some ''shape''
     \<and> selectedEntity s' = Some (EShape (nextRef s))
     \<and> selectedType s' = Some ''shape''"
proof -
  have fresh: "nextRef s \<notin> set (objectsRef s)"
    using wf by (auto simp: wfStore_def list_all_iff)
  have gone: "r \<notin> fst ` set (splice1 i (sketchesRef s))"
    using splice1_distinct_notin[of fst "sketchesRef s" i] wf idx sk
    by (simp add: wfStore_def)
  have len: "Suc (length (splice1 i (sketchesRef s))) = length (sketchesRef s)"
    using idx by (rule splice1_length)
  have same: "map ((heap s)(nextRef s := x)) (objectsRef s) = map (heap s) (objectsRef s)" for x
    using fresh by (induction "objectsRef s") auto
  have mesh: "utype (extrudedMesh M sk ol h c) = ''extruded''
      \<and> usketchData (extrudedMesh M sk ol h c) = Some sk
      \<and> uextrusionHeight (extrudedMesh M sk ol h c) = Some h" for ol
    by (simp add: extrudedMesh_def updateShapeGeometry_def newMesh_def)
  show ?thesis
    using idx sk kind center fresh gone len same mesh
    by (auto simp: handleExtrude_def finishExtrude_def pushObject_def alloc_def
          clearHighlight_def orDefault_def Let_def pushHistory_store pushHistory_sketchesRef
          splice1_def)
qed

theorem handleExtrude_consumes_sketch_witness:
  "wfStore sketched \<and>
   (\<exists>s'. handleExtrude noMesh 0 (Some 1) sketched = Returned s'
     \<and> sketchesRef s' = []
     \<and> objectsRef s' = [1]
     \<and> utype (heap s' 1) = ''extruded''
     \<and> usketchData (heap s' 1) = Some sampleRect
     \<and> uextrusionHeight (heap s' 1) = Some 1
     \<and> selectedEntityRef s' = Some (EShape 1))"
proof -
  have wf: "wfStore sketched"
    by (simp add: wfStore_def sketched_fields)
  have c: "scenter sampleRect = Some (Vector3 1 0 1.5)" "stype sampleRect = ''rectangle''"
    by (simp_all add: sampleRect_def)
  from handleExtrude_consumes_sketch[of 0 sketched 0 sampleRect "Vector3 1 0 1.5" 1 noMesh] wf c
  show ?thesis
    by (auto simp: sketched_fields)
qed

text \<open>
  Claim C6 as stated fails: the sketch list holds two rectangles with the same profile
  (entries 0 and 2) and a circle. Extruding entry 2 removes that entry only, so the
  remaining list still holds a sketch that matches the consumed profile.
\<close>

theorem equal_profile_remains:
  "wfStore kindsLoaded
   \<and> map snd (sketchesRef kindsLoaded) = [sampleRect, sampleCircle, sampleRect]
   \<and> (\<exists>s'. handleExtrude noMesh 2 (Some 1) kindsLoaded = Returned s'
         \<and> map snd (sketchesRef s') = [sampleRect, sampleCircle]
         \<and> usketchData (heap s' (nextRef kindsLoaded)) = Some sampleRect
         \<and> sampleRect \<in> snd ` set (sketchesRef s'))"
proof -
  have wf: "wfStore kindsLoaded"
    by (simp add: wfStore_def kindsLoaded_fields)
  have c: "scenter sampleRect = Some (Vector3 1 0 1.5)" "stype sampleRect = ''rectangle''"
    by (simp_all add: sampleRect_def)
  have "\<exists>s'. handleExtrude noMesh 2 (Some 1) kindsLoaded = Returned s'
         \<and> sketchesRef s' = [(0, sampleRect), (1, sampleCircle)]
         \<and> usketchData (heap s' 3) = Some sampleRect"
    using c
    by (simp add: handleExtrude_def finishExtrude_def pushObject_def alloc_def
          clearHighlight_def orDefault_def Let_def pushHistory_store pushHistory_sketchesRef
          splice1_def kindsLoaded_fields extrudedMesh_def updateShapeGeometry_def newMesh_def)
  with wf show ?thesis
    by (auto simp: kindsLoaded_fields)
qed


section \<open>Picking\<close>












section \<open>Multi-selection\<close>

text \<open>
  Claim C4 fails on the code. Box and sphere are placed and the box is clicked. The
  group command finds fewer than two shapes: it absorbs the primary selection, the box
  (object 0), into the multi-selection set and returns. Pressing Delete then removes
  the box from the store, but the multi-selection set still holds it.
\<close>

theorem delete_leaves_stale_multiselection:
  "objectsRef boxAbsorbed = [0, 1]
   \<and> multiSelectedRef boxAbsorbed = [0]
   \<and> objectsRef (handleKeyDownDelete boxAbsorbed) = [1]
   \<and> multiSelectedRef (handleKeyDownDelete boxAbsorbed) = [0]"
  by (simp add: sample_defs handler_defs)

text \<open>
  Claim C5 fails on the code. The box is clicked and the sphere is shift-clicked, which
  leaves the box in the multi-selection set. A press without modifiers whose ray hits
  nothing then clears the primary selection and the multi-selection highlights, but the
  box stays in the multi-selection set: after the first call of the handler and after
  the second.
\<close>

theorem empty_click_keeps_multiselection:
  "multiSelectedRef sphereToggled = [0]
   \<and> multiSelectedRef (handleSelection noMesh (rayAt None) (click 10 10 False False) sphereToggled) = [0]
   \<and> multiSelectedRef (press noMesh (rayAt None) (click 10 10 False False) sphereToggled) = [0]
   \<and> multiHighlightsRef (press noMesh (rayAt None) (click 10 10 False False) sphereToggled) = []
   \<and> selectedEntityRef (press noMesh (rayAt None) (click 10 10 False False) sphereToggled) = None"
  by (simp add: sample_defs handler_defs)

section \<open>Import\<close>

text \<open>
  Claim C9 fails on the code for sketches. An object entry of unknown type is skipped
  with a warning. A sketch entry of unknown type is not skipped and raises no warning:
  it is pushed onto the sketch list as a record that carries only its type.
\<close>

theorem unknown_sketch_type_loaded:
  "loadSceneFromJSON noMesh pyramidDoc initialState
     = Returned (initialState\<lparr> console := [''Unknown object type:''] \<rparr>)
   \<and> loadSceneFromJSON noMesh triangleDoc initialState
     = Returned (initialState\<lparr> sketchesRef := [(0, triangleSketch)], nextRef := 1 \<rparr>)"
  by (simp add: loadSceneFromJSON_def loadObject_def loadSketch_def triangleDoc_def pyramidDoc_def
        triangleSketch_def initialState_def Let_def)

lemma freshFrom_mono:
  "freshFrom n s \<Longrightarrow> objectsRef s' = objectsRef s \<Longrightarrow> sketchesRef s' = sketchesRef s \<Longrightarrow>
     nextRef s \<le> nextRef s' \<Longrightarrow> freshFrom n s'"
  by (auto simp: freshFrom_def list_all_iff)

lemma freshFrom_pushObject: "freshFrom n s \<Longrightarrow> freshFrom n (pushObject sh s)"
  by (auto simp: freshFrom_def pushObject_def alloc_def list_all_iff)

lemma freshFrom_loadObject: "freshFrom n s \<Longrightarrow> freshFrom n (stateOf (loadObject M od s))"
  by (auto simp: loadObject_def stateOf_def Let_def freshFrom_pushObject
        intro: freshFrom_mono split: sum.splits option.splits)

lemma freshFrom_loadObjects: "freshFrom n s \<Longrightarrow> freshFrom n (stateOf (loadObjects M ods s))"
proof (induction ods arbitrary: s)
  case Nil
  then show ?case by (simp add: stateOf_def)
next
  case (Cons od ods)
  show ?case
  proof (cases "loadObject M od s")
    case (Returned s')
    with freshFrom_loadObject[OF Cons.prems, of M od] have "freshFrom n s'"
      by (simp add: stateOf_def)
    from Cons.IH[OF this] Returned show ?thesis by simp
  next
    case (Threw s')
    with freshFrom_loadObject[OF Cons.prems, of M od] show ?thesis
      by (simp add: stateOf_def)
  qed
qed

lemma freshFrom_loadSketch: "freshFrom n s \<Longrightarrow> freshFrom n (stateOf (loadSketch e s))"
  by (auto simp: loadSketch_def stateOf_def Let_def freshFrom_def list_all_iff
        split: sum.splits option.splits)

lemma freshFrom_loadSketches: "freshFrom n s \<Longrightarrow> freshFrom n (stateOf (loadSketches es s))"
proof (induction es arbitrary: s)
  case Nil
  then show ?case by (simp add: stateOf_def)
next
  case (Cons e es)
  show ?case
  proof (cases "loadSketch e s")
    case (Returned s')
    with freshFrom_loadSketch[OF Cons.prems, of e] have "freshFrom n s'"
      by (simp add: stateOf_def)
    from Cons.IH[OF this] Returned show ?thesis by simp
  next
    case (Threw s')
    with freshFrom_loadSketch[OF Cons.prems, of e] show ?thesis
      by (simp add: stateOf_def)
  qed
qed

lemma freshFrom_load: "freshFrom (nextRef s) (stateOf (loadSceneFromJSON M d s))"
proof -
  have start: "freshFrom (nextRef s) (s\<lparr> objectsRef := [], sketchesRef := [] \<rparr>)"
    by (simp add: freshFrom_def)
  show ?thesis
  proof (cases "loadObjects M (dobjects d) (s\<lparr> objectsRef := [], sketchesRef := [] \<rparr>)")
    case (Returned s')
    with freshFrom_loadObjects[OF start, of M "dobjects d"] have "freshFrom (nextRef s) s'"
      by (simp add: stateOf_def)
    from freshFrom_loadSketches[OF this] Returned show ?thesis
      by (simp add: loadSceneFromJSON_def)
  next
    case (Threw s')
    with freshFrom_loadObjects[OF start, of M "dobjects d"] show ?thesis
      by (simp add: loadSceneFromJSON_def stateOf_def)
  qed
qed

lemma loadSketch_no_center:
  "stype (snd e) = ''rectangle'' \<or> stype (snd e) = ''circle'' \<Longrightarrow> scenter (snd e) = None \<Longrightarrow>
     loadSketch e s = Threw s"
  by (auto simp: loadSketch_def Let_def)

lemma loadSketches_throws:
  "e \<in> set es \<Longrightarrow> stype (snd e) = ''rectangle'' \<or> stype (snd e) = ''circle'' \<Longrightarrow>
     scenter (snd e) = None \<Longrightarrow> \<exists>s'. loadSketches es s = Threw s'"
proof (induction es arbitrary: s)
  case Nil
  then show ?case by simp
next
  case (Cons a es)
  show ?case
  proof (cases "loadSketch a s")
    case (Threw s')
    then show ?thesis by simp
  next
    case (Returned s')
    with Cons.prems loadSketch_no_center[of a s] have "e \<in> set es" by auto
    from Cons.IH[OF this Cons.prems(2,3)] Returned show ?thesis by simp
  qed
qed

text \<open>
  Claim C10. The loader empties the object list and the sketch list before it builds
  anything. For a document holding a rectangle or circle sketch record without
  \<open>center\<close>, loading into a well-allocated store throws, and what the store holds
  afterwards was all built by this load: none of the objects and none of the sketches
  it held before are left.
\<close>

theorem loadSceneFromJSON_not_atomic:
  assumes bad: "(i, sk) \<in> set (dsketches d)"
    and kind: "stype sk = ''rectangle'' \<or> stype sk = ''circle''"
    and center: "scenter sk = None"
    and wf: "wfStore s"
  shows "\<exists>s'. loadSceneFromJSON M d s = Threw s'
     \<and> set (objectsRef s') \<inter> set (objectsRef s) = {}
     \<and> fst ` set (sketchesRef s') \<inter> fst ` set (sketchesRef s) = {}"
proof -
  have thr: "\<exists>s'. loadSceneFromJSON M d s = Threw s'"
  proof (cases "loadObjects M (dobjects d) (s\<lparr> objectsRef := [], sketchesRef := [] \<rparr>)")
    case (Threw s')
    then show ?thesis by (simp add: loadSceneFromJSON_def)
  next
    case (Returned s')
    from loadSketches_throws[OF bad, of s'] kind center Returned show ?thesis
      by (simp add: loadSceneFromJSON_def)
  qed
  then obtain s' where s': "loadSceneFromJSON M d s = Threw s'" by blast
  from freshFrom_load[of s M d] s' have fresh: "freshFrom (nextRef s) s'"
    by (simp add: stateOf_def)
  from fresh wf have "set (objectsRef s') \<inter> set (objectsRef s) = {}"
    by (fastforce simp: freshFrom_def wfStore_def list_all_iff)
  moreover from fresh wf have "fst ` set (sketchesRef s') \<inter> fst ` set (sketchesRef s) = {}"
    by (fastforce simp: freshFrom_def wfStore_def list_all_iff)
  ultimately show ?thesis using s' by blast
qed

theorem loadSceneFromJSON_not_atomic_witness:
  "wfStore twoShapes \<and> objectsRef twoShapes = [0, 1]
   \<and> (\<exists>s'. loadSceneFromJSON noMesh brokenDoc twoShapes = Threw s'
         \<and> set (objectsRef s') \<inter> set (objectsRef twoShapes) = {}
         \<and> fst ` set (sketchesRef s') \<inter> fst ` set (sketchesRef twoShapes) = {})"
proof -
  have wf: "wfStore twoShapes" by (simp add: wfStore_def twoShapes_fields)
  have bad: "(1, circleNoCenter) \<in> set (dsketches brokenDoc)" by (simp add: brokenDoc_def)
  have kind: "stype circleNoCenter = ''rectangle'' \<or> stype circleNoCenter = ''circle''"
     and center: "scenter circleNoCenter = None"
    by (simp_all add: circleNoCenter_def)
  from loadSceneFromJSON_not_atomic[OF bad kind center wf, of noMesh] wf
  show ?thesis by (simp add: twoShapes_fields)
qed

lemma broken_load_result:
  "objectsRef (stateOf (loadSceneFromJSON noMesh brokenDoc twoShapes)) = []
   \<and> sketchesRef (stateOf (loadSceneFromJSON noMesh brokenDoc twoShapes)) = [(2, sampleRect)]"
  by (simp add: loadSceneFromJSON_def loadObject_def loadSketch_def brokenDoc_def twoShapes_fields
        sampleRect_def circleNoCenter_def stateOf_def Let_def)


section \<open>Codec round trip\<close>

lemma saveCenter_id: "saveCenter c = c"
  by (cases c) (simp add: saveCenter_def jsOr_def)

lemma map_option_saveCenter: "map_option saveCenter v = v"
  by (cases v) (simp_all add: saveCenter_id)

lemma vec3_eta: "Vector3 (vx c) (vy c) (vz c) = c"
  by (cases c) simp

lemma loadSketch_saveSketch:
  "codecSketch sk \<Longrightarrow>
     loadSketch (saveSketch i sk) s
       = Returned (s\<lparr> sketchesRef := sketchesRef s @ [(nextRef s, sk)], nextRef := Suc (nextRef s) \<rparr>)"
  by (cases sk)
     (auto simp: codecSketch_def loadSketch_def saveSketch_def Let_def map_option_saveCenter vec3_eta
        split: if_splits)


lemmas codec_defs = saveObject_def loadObject_def applyLoaded_def pushObject_def alloc_def
  createBox_def createSphere_def createCylinder_def recreateExtrudedShape_def newMesh_def
  updateShapeGeometry_def observable_def jsOr_def orDefault_def Let_def vec3_eta
  map_option_saveCenter

lemma box_loadsBack:
  assumes "codecShape sh" "utype sh = ''box''"
  shows "\<exists>od. saveObject i sh = Inr od \<and> loadsBack M sh od"
proof -
  from assms obtain c d where f: "material sh = Some c" "c \<noteq> 0" "udimensions sh = Some d"
     "uradius sh = None" "uheight sh = None" "uextrusionHeight sh = None" "usketchData sh = None"
    by (auto simp: codecShape_def split: option.splits)
  show ?thesis
    using f assms(2)
    by (cases sh; cases d) (simp add: loadsBack_def codec_defs)
qed


lemma sphere_loadsBack:
  assumes "codecShape sh" "utype sh = ''sphere''"
  shows "\<exists>od. saveObject i sh = Inr od \<and> loadsBack M sh od"
proof -
  from assms obtain c r where f: "material sh = Some c" "c \<noteq> 0" "uradius sh = Some r" "r \<noteq> 0"
     "udimensions sh = None" "uheight sh = None" "uextrusionHeight sh = None" "usketchData sh = None"
    by (auto simp: codecShape_def split: option.splits)
  show ?thesis
    using f assms(2)
    by (cases sh) (simp add: loadsBack_def codec_defs)
qed

lemma cylinder_loadsBack:
  assumes "codecShape sh" "utype sh = ''cylinder''"
  shows "\<exists>od. saveObject i sh = Inr od \<and> loadsBack M sh od"
proof -
  from assms obtain c r h where f: "material sh = Some c" "c \<noteq> 0" "uradius sh = Some r" "r \<noteq> 0"
     "uheight sh = Some h" "h \<noteq> 0"
     "udimensions sh = None" "uextrusionHeight sh = None" "usketchData sh = None"
    by (auto simp: codecShape_def split: option.splits)
  show ?thesis
    using f assms(2)
    by (cases sh) (simp add: loadsBack_def codec_defs)
qed

lemma extruded_loadsBack:
  assumes "codecShape sh" "utype sh = ''extruded''"
  shows "\<exists>od. saveObject i sh = Inr od \<and> loadsBack M sh od"
proof -
  from assms obtain c h sd where f: "material sh = Some c" "c \<noteq> 0"
     "uextrusionHeight sh = Some h" "h \<noteq> 0" "usketchData sh = Some sd"
     "stype sd = ''rectangle'' \<or> stype sd = ''circle''"
     "udimensions sh = None" "uradius sh = None" "uheight sh = None"
    by (auto simp: codecShape_def split: option.splits)
  show ?thesis
    using f assms(2)
    by (cases sh; cases sd) (auto simp: loadsBack_def codec_defs)
qed

lemma codecShape_loadsBack:
  assumes "codecShape sh"
  shows "\<exists>od. saveObject i sh = Inr od \<and> loadsBack M sh od"
proof -
  from assms have "utype sh = ''box'' \<or> utype sh = ''sphere'' \<or> utype sh = ''cylinder''
      \<or> utype sh = ''extruded''"
    by (auto simp: codecShape_def split: if_splits)
  with assms show ?thesis
    using box_loadsBack sphere_loadsBack cylinder_loadsBack extruded_loadsBack by blast
qed

lemma loadObjects_saveObjects:
  "list_all codecShape shs \<Longrightarrow> list_all (\<lambda>r. r < nextRef s) (objectsRef s) \<Longrightarrow>
     \<exists>ods s'. saveObjects i shs = Inr ods \<and> loadObjects M ods s = Returned s'
       \<and> map observable (storeShapes s') = map observable (storeShapes s) @ map observable shs
       \<and> list_all (\<lambda>r. r < nextRef s') (objectsRef s')
       \<and> sketchesRef s' = sketchesRef s"
proof (induction shs arbitrary: i s)
  case Nil
  then show ?case by simp
next
  case (Cons sh shs)
  from Cons.prems(1) have sh: "codecShape sh" and rest: "list_all codecShape shs" by simp_all
  from codecShape_loadsBack[OF sh, of i M] obtain od where
    od: "saveObject i sh = Inr od" and lb: "loadsBack M sh od" by blast
  from lb obtain s1 where s1: "loadObject M od s = Returned s1"
      "objectsRef s1 = objectsRef s @ [nextRef s]" "nextRef s1 = Suc (nextRef s)"
      "observable (heap s1 (nextRef s)) = observable sh"
      "\<forall>r. r \<noteq> nextRef s \<longrightarrow> heap s1 r = heap s r" "sketchesRef s1 = sketchesRef s"
    unfolding loadsBack_def by blast
  have old: "map (heap s1) (objectsRef s) = map (heap s) (objectsRef s)"
    using Cons.prems(2) s1(5) by (auto simp: list_all_iff)
  have shapes1: "map observable (storeShapes s1) = map observable (storeShapes s) @ [observable sh]"
    using s1(2,4) old by (simp add: storeShapes_def)
  have inv1: "list_all (\<lambda>r. r < nextRef s1) (objectsRef s1)"
    using Cons.prems(2) s1(2,3) by (auto simp: list_all_iff)
  from Cons.IH[OF rest inv1, of "Suc i"] obtain ods s' where
    r: "saveObjects (Suc i) shs = Inr ods" "loadObjects M ods s1 = Returned s'"
       "map observable (storeShapes s') = map observable (storeShapes s1) @ map observable shs"
       "list_all (\<lambda>r. r < nextRef s') (objectsRef s')" "sketchesRef s' = sketchesRef s1"
    by blast
  show ?case
    using od s1(1,6) r shapes1 by simp
qed

lemma loadSketches_saveSketches:
  "list_all codecSketch sks \<Longrightarrow>
     \<exists>s'. loadSketches (saveSketches i sks) s = Returned s'
       \<and> storeSketches s' = storeSketches s @ sks
       \<and> storeShapes s' = storeShapes s"
proof (induction sks arbitrary: i s)
  case Nil
  then show ?case by simp
next
  case (Cons sk sks)
  from Cons.prems have sk: "codecSketch sk" and rest: "list_all codecSketch sks" by simp_all
  let ?s1 = "s\<lparr> sketchesRef := sketchesRef s @ [(nextRef s, sk)], nextRef := Suc (nextRef s) \<rparr>"
  from Cons.IH[OF rest, of "Suc i" ?s1] obtain s' where
    r: "loadSketches (saveSketches (Suc i) sks) ?s1 = Returned s'"
       "storeSketches s' = storeSketches ?s1 @ sks" "storeShapes s' = storeShapes ?s1"
    by blast
  show ?case
    using r loadSketch_saveSketch[OF sk, of i s]
    by (simp add: storeSketches_def storeShapes_def)
qed

lemma codec_reload:
  assumes "list_all codecShape shapes" and "list_all codecSketch sketches"
  shows "\<exists>d s'. saveSceneToJSON shapes sketches = Inr d
     \<and> loadSceneFromJSON M d s = Returned s'
     \<and> map observable (storeShapes s') = map observable shapes
     \<and> storeSketches s' = sketches"
proof -
  let ?s0 = "s\<lparr> objectsRef := [], sketchesRef := [] \<rparr>"
  have "list_all (\<lambda>r. r < nextRef ?s0) (objectsRef ?s0)" by simp
  from loadObjects_saveObjects[OF assms(1) this, of 0 M] obtain ods s1 where
    o: "saveObjects 0 shapes = Inr ods" "loadObjects M ods ?s0 = Returned s1"
       "map observable (storeShapes s1) = map observable (storeShapes ?s0) @ map observable shapes"
       "sketchesRef s1 = sketchesRef ?s0"
    by blast
  from loadSketches_saveSketches[OF assms(2), of 0 s1] obtain s' where
    k: "loadSketches (saveSketches 0 sketches) s1 = Returned s'"
       "storeSketches s' = storeSketches s1 @ sketches" "storeShapes s' = storeShapes s1"
    by blast
  have e1: "storeShapes ?s0 = []" by (simp add: storeShapes_def)
  have e2: "storeSketches s1 = []" using o(4) by (simp add: storeSketches_def)
  show ?thesis
    using o(1,2,3) k e1 e2
    by (simp add: saveSceneToJSON_def loadSceneFromJSON_def)
qed


text \<open>
  Claim C1, amended. For a store whose shapes are boxes, spheres, cylinders and extruded
  solids as the editor builds them, and whose sketches are rectangles and circles with
  a centre, serialising succeeds, loading the document (into any state) returns
  normally, and the loaded store has the same shapes in the same order with the same
  observable fields (kind, parameters, position, rotation, scale, colour, sketch data
  and extrusion height) and the same sketches.
\<close>

theorem codec_round_trip:
  assumes "list_all codecShape shapes" and "list_all codecSketch sketches"
  shows "\<exists>d s'. saveSceneToJSON shapes sketches = Inr d
     \<and> loadSceneFromJSON M d s = Returned s'
     \<and> map observable (storeShapes s') = map observable shapes
     \<and> storeSketches s' = sketches"
  using codec_reload[OF assms] .

lemma allKinds_store:
  "map utype (storeShapes allKinds) = [''box'', ''sphere'', ''cylinder'', ''extruded'']"
  "map stype (storeSketches allKinds) = [''rectangle'', ''circle'']"
  "stableStore (storeShapes allKinds) (storeSketches allKinds)"
  by (simp_all add: stableStore_def codecShape_def codecSketch_def sample_defs handler_defs)

theorem codec_round_trip_witness:
  "map utype (storeShapes allKinds) = [''box'', ''sphere'', ''cylinder'', ''extruded'']
   \<and> map stype (storeSketches allKinds) = [''rectangle'', ''circle'']
   \<and> (\<exists>d s'. saveSceneToJSON (storeShapes allKinds) (storeSketches allKinds) = Inr d
         \<and> loadSceneFromJSON noMesh d allKinds = Returned s'
         \<and> map observable (storeShapes s') = map observable (storeShapes allKinds)
         \<and> storeSketches s' = storeSketches allKinds)"
  using codec_round_trip[of "storeShapes allKinds" "storeSketches allKinds" noMesh allKinds]
    allKinds_store
  by (simp add: stableStore_def)

text \<open>
  Claim C1 as stated fails for the kind \<open>group\<close>: after grouping box and sphere the
  store holds one group, and serialising it throws, since a group has no material. A
  hand-written entry of type \<open>group\<close> would be skipped by the loader as unknown.
\<close>

theorem group_not_serializable:
  "map utype (storeShapes grouped) = [''group'']
   \<and> saveSceneToJSON (storeShapes grouped) (storeSketches grouped) = Inl TypeError
   \<and> loadObject noMesh groupEntry initialState
        = Returned (initialState\<lparr> console := [''Unknown object type:''] \<rparr>)"
  using grouped_save grouped_store
  by (simp add: storeShapes_def loadObject_def groupEntry_def initialState_def)


section \<open>Undo and redo\<close>

lemma loadObject_stacks:
  "undoStackRef (stateOf (loadObject M od s)) = undoStackRef s
   \<and> redoStackRef (stateOf (loadObject M od s)) = redoStackRef s"
  by (simp add: loadObject_def stateOf_def pushObject_def alloc_def Let_def
        split: sum.splits option.splits)

lemma loadObjects_stacks:
  "undoStackRef (stateOf (loadObjects M ods s)) = undoStackRef s
   \<and> redoStackRef (stateOf (loadObjects M ods s)) = redoStackRef s"
proof (induction ods arbitrary: s)
  case Nil
  show ?case by (simp add: stateOf_def)
next
  case (Cons od ods)
  show ?case
  proof (cases "loadObject M od s")
    case (Returned s')
    with loadObject_stacks[of M od s] Cons.IH[of s'] show ?thesis
      by (simp add: stateOf_def)
  next
    case (Threw s')
    with loadObject_stacks[of M od s] show ?thesis
      by (simp add: stateOf_def)
  qed
qed

lemma loadSketch_stacks:
  "undoStackRef (stateOf (loadSketch e s)) = undoStackRef s
   \<and> redoStackRef (stateOf (loadSketch e s)) = redoStackRef s"
  by (simp add: loadSketch_def stateOf_def Let_def split: sum.splits option.splits)

lemma loadSketches_stacks:
  "undoStackRef (stateOf (loadSketches es s)) = undoStackRef s
   \<and> redoStackRef (stateOf (loadSketches es s)) = redoStackRef s"
proof (induction es arbitrary: s)
  case Nil
  show ?case by (simp add: stateOf_def)
next
  case (Cons e es)
  show ?case
  proof (cases "loadSketch e s")
    case (Returned s')
    with loadSketch_stacks[of e s] Cons.IH[of s'] show ?thesis
      by (simp add: stateOf_def)
  next
    case (Threw s')
    with loadSketch_stacks[of e s] show ?thesis
      by (simp add: stateOf_def)
  qed
qed

lemma load_stacks:
  "undoStackRef (stateOf (loadSceneFromJSON M d s)) = undoStackRef s
   \<and> redoStackRef (stateOf (loadSceneFromJSON M d s)) = redoStackRef s"
proof (cases "loadObjects M (dobjects d) (s\<lparr> objectsRef := [], sketchesRef := [] \<rparr>)")
  case (Returned s')
  with loadObjects_stacks[of M "dobjects d" "s\<lparr> objectsRef := [], sketchesRef := [] \<rparr>"]
       loadSketches_stacks[of "dsketches d" s']
  show ?thesis by (simp add: loadSceneFromJSON_def stateOf_def)
next
  case (Threw s')
  with loadObjects_stacks[of M "dobjects d" "s\<lparr> objectsRef := [], sketchesRef := [] \<rparr>"]
  show ?thesis by (simp add: loadSceneFromJSON_def stateOf_def)
qed

lemma saveObject_observable: "saveObject i (observable sh) = saveObject i sh"
  by (cases "material sh") (simp_all add: saveObject_def observable_def Let_def)

lemma saveObjects_observable: "saveObjects i (map observable shs) = saveObjects i shs"
  by (induction shs arbitrary: i) (simp_all add: saveObject_observable split: sum.splits)

lemma saveScene_observable:
  "map observable xs = map observable ys \<Longrightarrow> saveSceneToJSON xs k = saveSceneToJSON ys k"
  using saveObjects_observable[of 0 xs] saveObjects_observable[of 0 ys]
  by (simp add: saveSceneToJSON_def)

lemma codecShape_observable: "codecShape (observable sh) = codecShape sh"
  by (simp add: codecShape_def observable_def)

lemma list_all_codecShape_observable:
  "list_all codecShape (map observable xs) = list_all codecShape xs"
  by (induction xs) (simp_all add: codecShape_observable)

lemma stableStore_observable:
  "map observable xs = map observable ys \<Longrightarrow> stableStore xs k = stableStore ys k"
  using list_all_codecShape_observable[of xs] list_all_codecShape_observable[of ys]
  by (simp add: stableStore_def)

lemma restore_stable:
  assumes "stableStore shapes sketches" and "saveSceneToJSON shapes sketches = Inr d"
  shows "map observable (storeShapes (restoreSceneFromSnapshot M d s)) = map observable shapes
     \<and> storeSketches (restoreSceneFromSnapshot M d s) = sketches
     \<and> undoStackRef (restoreSceneFromSnapshot M d s) = undoStackRef s
     \<and> redoStackRef (restoreSceneFromSnapshot M d s) = redoStackRef s"
proof -
  from assms(1) codec_reload[of shapes sketches M s] assms(2)
  obtain s' where s': "loadSceneFromJSON M d s = Returned s'"
     "map observable (storeShapes s') = map observable shapes" "storeSketches s' = sketches"
    by (auto simp: stableStore_def)
  from load_stacks[of M d s] s'(1)
  have st: "undoStackRef s' = undoStackRef s" "redoStackRef s' = redoStackRef s"
    by (simp_all add: stateOf_def)
  show ?thesis
    using s' st
    by (simp add: restoreSceneFromSnapshot_def clearHighlight_def storeShapes_def storeSketches_def)
qed

lemma stable_snapshot:
  assumes "stableStore (storeShapes s) (storeSketches s)"
  shows "\<exists>d. saveSceneToJSON (storeShapes s) (storeSketches s) = Inr d"
  using assms codec_reload[of "storeShapes s" "storeSketches s" noMesh s]
  by (auto simp: stableStore_def)

lemma undo_step:
  assumes cur: "saveSceneToJSON (storeShapes s) (storeSketches s) = Inr dc"
    and top: "undoStackRef s = b @ [d]"
    and h: "stableStore hs hk" "saveSceneToJSON hs hk = Inr d"
  shows "map observable (storeShapes (undoHandler M s)) = map observable hs
     \<and> storeSketches (undoHandler M s) = hk
     \<and> undoStackRef (undoHandler M s) = b
     \<and> redoStackRef (undoHandler M s) = redoStackRef s @ [dc]"
proof -
  let ?s3 = "s\<lparr> undoStackRef := b, redoStackRef := redoStackRef s @ [dc] \<rparr>"
  have u: "undoHandler M s = restoreSceneFromSnapshot M d ?s3"
    using cur top
    by (simp add: undoHandler_def snapshotScene_def storeShapes_def storeSketches_def Let_def)
  from restore_stable[OF h, of M ?s3] u show ?thesis by simp
qed

lemma redo_step:
  assumes cur: "saveSceneToJSON (storeShapes s) (storeSketches s) = Inr dc"
    and top: "redoStackRef s = b @ [d]"
    and h: "stableStore hs hk" "saveSceneToJSON hs hk = Inr d"
  shows "map observable (storeShapes (redoHandler M s)) = map observable hs
     \<and> storeSketches (redoHandler M s) = hk
     \<and> redoStackRef (redoHandler M s) = b
     \<and> undoStackRef (redoHandler M s) = undoStackRef s @ [dc]"
proof -
  let ?s3 = "s\<lparr> redoStackRef := b, undoStackRef := undoStackRef s @ [dc] \<rparr>"
  have u: "redoHandler M s = restoreSceneFromSnapshot M d ?s3"
    using cur top
    by (simp add: redoHandler_def snapshotScene_def storeShapes_def storeSketches_def Let_def)
  from restore_stable[OF h, of M ?s3] u show ?thesis by simp
qed


lemma undoRedo_Suc:
  "undoRedo M (Suc n) s = redoHandler M (undoRedo M n (undoHandler M s))"
  by (simp add: undoRedo_def funpow_swap1)

text \<open>
  Claim C3, amended. The store holds shapes and sketches as the editor builds them (no
  group), and the top \<open>length snaps\<close> entries of the undo stack are snapshots of such
  stores. Then that many undos followed by as many redos bring back a store with the
  same shapes in the same order with the same observable fields (hence the same
  entity count, kinds and transforms) and the same sketches, and both stacks hold what
  they held before.
\<close>

theorem undo_redo_restores:
  assumes cur: "stableStore (storeShapes s) (storeSketches s)"
    and stack: "undoStackRef s = base @ snaps"
    and hist: "map Inr snaps = map (\<lambda>h. saveSceneToJSON (fst h) (snd h)) hs"
    and ok: "list_all (\<lambda>h. stableStore (fst h) (snd h)) hs"
  shows "map observable (storeShapes (undoRedo M (length snaps) s)) = map observable (storeShapes s)
     \<and> storeSketches (undoRedo M (length snaps) s) = storeSketches s
     \<and> undoStackRef (undoRedo M (length snaps) s) = undoStackRef s
     \<and> redoStackRef (undoRedo M (length snaps) s) = redoStackRef s"
  using assms
proof (induction hs arbitrary: snaps s rule: rev_induct)
  case Nil
  then show ?case by (simp add: undoRedo_def)
next
  case (snoc h hs)
  from snoc.prems(3) obtain snaps' d where
    sn: "snaps = snaps' @ [d]"
    and hist': "map Inr snaps' = map (\<lambda>h. saveSceneToJSON (fst h) (snd h)) hs"
    and hd: "saveSceneToJSON (fst h) (snd h) = Inr d"
    by (auto simp: map_eq_append_conv)
  from snoc.prems(4) have hst: "stableStore (fst h) (snd h)"
    and ok': "list_all (\<lambda>h. stableStore (fst h) (snd h)) hs"
    by simp_all
  from stable_snapshot[OF snoc.prems(1)] obtain dc where
    dc: "saveSceneToJSON (storeShapes s) (storeSketches s) = Inr dc" by blast
  let ?s1 = "undoHandler M s"
  have top: "undoStackRef s = (base @ snaps') @ [d]"
    using snoc.prems(2) sn by simp
  note u = undo_step[OF dc top hst hd, of M]
  have st1: "stableStore (storeShapes ?s1) (storeSketches ?s1)"
    using u hst stableStore_observable[of "storeShapes ?s1" "fst h" "snd h"] by simp
  have stack1: "undoStackRef ?s1 = base @ snaps'" using u by simp
  note ih = snoc.IH[OF st1 stack1 hist' ok']
  let ?s2 = "undoRedo M (length snaps') ?s1"
  have snap2: "saveSceneToJSON (storeShapes ?s2) (storeSketches ?s2) = Inr d"
    using ih u hd saveScene_observable[of "storeShapes ?s2" "fst h" "snd h"] by simp
  have top2: "redoStackRef ?s2 = redoStackRef s @ [dc]"
    using ih u by simp
  note r = redo_step[OF snap2 top2 snoc.prems(1) dc, of M]
  have "undoRedo M (length snaps) s = redoHandler M ?s2"
    using sn by (simp add: undoRedo_Suc)
  then show ?case
    using r ih stack1 snoc.prems(2) sn by simp
qed


lemma twoShapes_history:
  "map Inr (undoStackRef twoShapes)
     = map (\<lambda>h. saveSceneToJSON (fst h) (snd h))
         [(storeShapes initialState, storeSketches initialState),
          (storeShapes oneBox, storeSketches oneBox)]"
  "stableStore (storeShapes initialState) (storeSketches initialState)"
  "stableStore (storeShapes oneBox) (storeSketches oneBox)"
  "stableStore (storeShapes twoShapes) (storeSketches twoShapes)"
  "length (undoStackRef twoShapes) = 2"
  by (simp_all add: stableStore_def codecShape_def codecSketch_def sample_defs handler_defs)

theorem undo_redo_restores_witness:
  "length (undoStackRef twoShapes) = 2
   \<and> map observable (storeShapes (undoRedo noMesh 2 twoShapes)) = map observable (storeShapes twoShapes)
   \<and> storeSketches (undoRedo noMesh 2 twoShapes) = storeSketches twoShapes
   \<and> undoStackRef (undoRedo noMesh 2 twoShapes) = undoStackRef twoShapes
   \<and> redoStackRef (undoRedo noMesh 2 twoShapes) = redoStackRef twoShapes"
  using undo_redo_restores[of twoShapes "[]" "undoStackRef twoShapes"
      "[(storeShapes initialState, storeSketches initialState),
        (storeShapes oneBox, storeSketches oneBox)]" noMesh]
    twoShapes_history
  by simp

text \<open>
  Claim C3 as stated fails twice. After placing a box and a sphere and undoing once,
  the undo stack has one entry and the redo stack one: two undos (the second finds the
  stack empty) followed by two redos end in the scene with both shapes instead of the
  one-box scene they started from. After grouping box and sphere, the undo cannot
  snapshot the group for the redo stack, so one undo followed by one redo ends in the
  ungrouped scene.
\<close>

theorem undo_redo_counterexample:
  "map utype (storeShapes undone) = [''box'']
   \<and> map utype (storeShapes (undoRedo noMesh 2 undone)) = [''box'', ''sphere'']
   \<and> map utype (storeShapes grouped) = [''group'']
   \<and> map utype (storeShapes (undoRedo noMesh 1 grouped)) = [''box'', ''sphere'']"
  by (simp add: undoRedo_def storeShapes_def numeral_2_eq_2 sample_defs handler_defs)


section \<open>The allocation discipline is kept\<close>

text \<open>
  \<open>wfStore\<close> holds initially and every modelled handler keeps it, so it restricts no
  state the editor can be in.
\<close>

lemma wfStore_cong:
  "nextRef s' = nextRef s \<Longrightarrow> objectsRef s' = objectsRef s \<Longrightarrow> sketchesRef s' = sketchesRef s \<Longrightarrow>
     wfStore s' = wfStore s"
  by (simp add: wfStore_def)

lemma wfStore_initialState: "wfStore initialState"
  by (simp add: wfStore_def initialState_def)

lemma wfStore_pushHistory: "wfStore (pushHistory s) = wfStore s"
  by (rule wfStore_cong) (simp_all add: pushHistory_store pushHistory_sketchesRef)

lemma wfStore_pushObject: "wfStore s \<Longrightarrow> wfStore (pushObject sh s)"
  by (auto simp: wfStore_def pushObject_def alloc_def list_all_iff)

lemma wfStore_filter:
  "wfStore s \<Longrightarrow> wfStore (s\<lparr> objectsRef := filter P (objectsRef s) \<rparr>)"
  by (auto simp: wfStore_def list_all_iff)

lemma wfStore_loadObject: "wfStore s \<Longrightarrow> wfStore (stateOf (loadObject M od s))"
proof -
  assume wf: "wfStore s"
  have warn: "wfStore (s\<lparr> console := c \<rparr>)" for c
    using wf by (simp add: wfStore_def)
  show ?thesis
    using wf warn wfStore_pushObject[OF wf]
    by (simp add: loadObject_def stateOf_def Let_def split: sum.splits option.splits)
qed

lemma wfStore_loadObjects: "wfStore s \<Longrightarrow> wfStore (stateOf (loadObjects M ods s))"
proof (induction ods arbitrary: s)
  case Nil
  then show ?case by (simp add: stateOf_def)
next
  case (Cons od ods)
  show ?case
  proof (cases "loadObject M od s")
    case (Returned s')
    with wfStore_loadObject[OF Cons.prems, of M od] have "wfStore s'"
      by (simp add: stateOf_def)
    from Cons.IH[OF this] Returned show ?thesis by simp
  next
    case (Threw s')
    with wfStore_loadObject[OF Cons.prems, of M od] show ?thesis
      by (simp add: stateOf_def)
  qed
qed

lemma wfStore_loadSketch: "wfStore s \<Longrightarrow> wfStore (stateOf (loadSketch e s))"
  by (fastforce simp: loadSketch_def stateOf_def Let_def wfStore_def list_all_iff
        split: sum.splits option.splits)

lemma wfStore_loadSketches: "wfStore s \<Longrightarrow> wfStore (stateOf (loadSketches es s))"
proof (induction es arbitrary: s)
  case Nil
  then show ?case by (simp add: stateOf_def)
next
  case (Cons e es)
  show ?case
  proof (cases "loadSketch e s")
    case (Returned s')
    with wfStore_loadSketch[OF Cons.prems, of e] have "wfStore s'"
      by (simp add: stateOf_def)
    from Cons.IH[OF this] Returned show ?thesis by simp
  next
    case (Threw s')
    with wfStore_loadSketch[OF Cons.prems, of e] show ?thesis
      by (simp add: stateOf_def)
  qed
qed

lemma wfStore_load: "wfStore (stateOf (loadSceneFromJSON M d s))"
proof -
  have start: "wfStore (s\<lparr> objectsRef := [], sketchesRef := [] \<rparr>)"
    by (simp add: wfStore_def)
  show ?thesis
  proof (cases "loadObjects M (dobjects d) (s\<lparr> objectsRef := [], sketchesRef := [] \<rparr>)")
    case (Returned s')
    with wfStore_loadObjects[OF start, of M "dobjects d"] have "wfStore s'"
      by (simp add: stateOf_def)
    from wfStore_loadSketches[OF this] Returned show ?thesis
      by (simp add: loadSceneFromJSON_def)
  next
    case (Threw s')
    with wfStore_loadObjects[OF start, of M "dobjects d"] show ?thesis
      by (simp add: loadSceneFromJSON_def stateOf_def)
  qed
qed

lemma wfStore_restore: "wfStore (restoreSceneFromSnapshot M d s)"
proof (cases "loadSceneFromJSON M d s")
  case (Returned s')
  with wfStore_load[of M d s] show ?thesis
    by (simp add: restoreSceneFromSnapshot_def stateOf_def clearHighlight_def wfStore_def)
next
  case (Threw s')
  with wfStore_load[of M d s] show ?thesis
    by (simp add: restoreSceneFromSnapshot_def stateOf_def wfStore_def)
qed

lemma wfStore_undoHandler: "wfStore s \<Longrightarrow> wfStore (undoHandler M s)"
  by (simp add: undoHandler_def Let_def wfStore_restore split: prod.splits)

lemma wfStore_redoHandler: "wfStore s \<Longrightarrow> wfStore (redoHandler M s)"
  by (simp add: redoHandler_def Let_def wfStore_restore split: prod.splits)

lemma wfStore_handleKeyDownDelete: "wfStore s \<Longrightarrow> wfStore (handleKeyDownDelete s)"
proof -
  assume wf: "wfStore s"
  then have "wfStore (pushHistory s)" by (simp add: wfStore_pushHistory)
  from wfStore_filter[OF this]
  have f: "wfStore ((pushHistory s)\<lparr> objectsRef := filter P (objectsRef (pushHistory s)) \<rparr>)" for P .
  have sel: "wfStore (clearHighlight (t\<lparr> selectedEntity := a, selectedEntityRef := b,
                selectedType := c, selectedTypeRef := d \<rparr>)) = wfStore t" for t a b c d
    by (rule wfStore_cong) (simp_all add: clearHighlight_def)
  show ?thesis
    using wf f by (simp add: handleKeyDownDelete_def Let_def sel split: option.splits)
qed

lemma wfStore_createShapeAtPosition:
  "wfStore s \<Longrightarrow> wfStore (createShapeAtPosition M type pos s)"
proof -
  assume wf: "wfStore s"
  have warn: "wfStore (s\<lparr> console := c \<rparr>)" for c
    using wf by (simp add: wfStore_def)
  have sel: "wfStore ((clearHighlight t)\<lparr> selectedEntity := a, selectedType := b \<rparr>) = wfStore t"
    for t a b
    by (rule wfStore_cong) (simp_all add: clearHighlight_def)
  show ?thesis
    using warn wfStore_pushObject[OF wf]
    by (simp add: createShapeAtPosition_def Let_def sel)
qed

lemma fold_removeMultiHighlight_store:
  "nextRef (fold removeMultiHighlightForShape xs t) = nextRef t"
  "objectsRef (fold removeMultiHighlightForShape xs t) = objectsRef t"
  "sketchesRef (fold removeMultiHighlightForShape xs t) = sketchesRef t"
  by (induction xs arbitrary: t) (simp_all add: removeMultiHighlightForShape_def)

lemma wfStore_handleSelection: "wfStore s \<Longrightarrow> wfStore (handleSelection M V ev s)"
proof -
  assume wf: "wfStore s"
  have sel: "wfStore (applySelection ev sel t) = wfStore t" for sel t
    by (rule wfStore_cong)
       (auto simp: applySelection_def toggleMulti_def clearHighlight_def Let_def
          addMultiHighlightForShape_def removeMultiHighlightForShape_def
          fold_removeMultiHighlight_store
          split: option.splits prod.splits)
  have pend: "wfStore (s\<lparr> pendingShapeTypeRef := None \<rparr>)"
    using wf by (simp add: wfStore_def)
  show ?thesis
    using wf pend wfStore_createShapeAtPosition[OF pend]
    by (auto simp: handleSelection_def sel Let_def split: option.splits)
qed


lemma wfStore_createShapeHandler: "wfStore s \<Longrightarrow> wfStore (createShapeHandler type s)"
proof -
  assume "wfStore s"
  then have wf: "wfStore (pushHistory s)" by (simp add: wfStore_pushHistory)
  then have "wfStore ((pushHistory s)\<lparr> pendingShapeTypeRef := p \<rparr>)" for p
    by (simp add: wfStore_def)
  with wf show ?thesis
    by (simp add: createShapeHandler_def handleShapeCreation_def)
qed

lemma splice1_distinct:
  assumes "distinct (map f xs)"
  shows "distinct (map f (splice1 i xs))"
proof (cases "i < length xs")
  case True
  then have "xs = take i xs @ (xs ! i) # drop (Suc i) xs"
    by (simp add: id_take_nth_drop)
  then have "distinct (map f (take i xs @ (xs ! i) # drop (Suc i) xs))"
    using assms by simp
  then show ?thesis by (simp add: splice1_def)
next
  case False
  with assms show ?thesis by (simp add: splice1_def)
qed

lemma splice1_subset: "set (splice1 i xs) \<subseteq> set xs"
  by (auto simp: splice1_def dest: in_set_takeD in_set_dropD)

lemma wfStore_splice:
  "wfStore s \<Longrightarrow> wfStore (s\<lparr> sketchesRef := splice1 i (sketchesRef s) \<rparr>)"
  using splice1_subset[of i "sketchesRef s"] splice1_distinct[of fst "sketchesRef s" i]
  by (auto simp: wfStore_def list_all_iff)

lemma wfStore_finishExtrude: "wfStore s \<Longrightarrow> wfStore (finishExtrude i sh s)"
proof -
  assume wf: "wfStore s"
  have sel: "wfStore ((clearHighlight (t\<lparr> sketchToolRef := k \<rparr>))
       \<lparr> selectedEntity := a, selectedType := b, selectedEntityRef := c, selectedTypeRef := d \<rparr>)
     = wfStore t" for t k a b c d
    by (rule wfStore_cong) (simp_all add: clearHighlight_def)
  from wfStore_splice[OF wfStore_pushObject[OF wf], of i sh]
  show ?thesis
    by (simp add: finishExtrude_def Let_def sel)
qed

lemma wfStore_handleExtrude: "wfStore s \<Longrightarrow> wfStore (stateOf (handleExtrude M i h s))"
proof -
  assume wf: "wfStore s"
  then have wf1: "wfStore (pushHistory s)" by (simp add: wfStore_pushHistory)
  show ?thesis
    using wf wf1 wfStore_finishExtrude[OF wf1]
    by (simp add: handleExtrude_def stateOf_def Let_def split: option.splits)
qed

lemma attachToGroup_store:
  "nextRef (attachToGroup g a t) = nextRef t"
  "sketchesRef (attachToGroup g a t) = sketchesRef t"
  "set (objectsRef (attachToGroup g a t)) \<subseteq> set (objectsRef t)"
  by (auto simp: attachToGroup_def removeMultiHighlightForShape_def Let_def)

lemma fold_attachToGroup_store:
  "nextRef (fold (attachToGroup g) xs t) = nextRef t
   \<and> sketchesRef (fold (attachToGroup g) xs t) = sketchesRef t
   \<and> set (objectsRef (fold (attachToGroup g) xs t)) \<subseteq> set (objectsRef t)"
proof (induction xs arbitrary: t)
  case Nil
  show ?case by simp
next
  case (Cons a xs)
  from Cons.IH[of "attachToGroup g a t"] attachToGroup_store[of g a t]
  show ?case by auto
qed

lemma wfStore_grouping:
  assumes wf: "wfStore t"
  shows "wfStore (clearHighlight
       ((fold (attachToGroup (nextRef t)) xs (pushHistory (t\<lparr> heap := (heap t)(nextRef t := newGroup), nextRef := Suc (nextRef t) \<rparr>)))
          \<lparr> objectsRef := objectsRef (fold (attachToGroup (nextRef t)) xs
                            (pushHistory (t\<lparr> heap := (heap t)(nextRef t := newGroup), nextRef := Suc (nextRef t) \<rparr>))) @ [nextRef t],
            multiSelectedRef := [], selectedEntity := a, selectedType := b,
            selectedEntityRef := c, selectedTypeRef := d \<rparr>))"
proof -
  let ?t1 = "pushHistory (t\<lparr> heap := (heap t)(nextRef t := newGroup), nextRef := Suc (nextRef t) \<rparr>)"
  let ?t2 = "fold (attachToGroup (nextRef t)) xs ?t1"
  have t1: "nextRef ?t1 = Suc (nextRef t)" "sketchesRef ?t1 = sketchesRef t"
     "objectsRef ?t1 = objectsRef t"
    by (simp_all add: pushHistory_store pushHistory_sketchesRef)
  from fold_attachToGroup_store[of "nextRef t" xs ?t1] t1
  have t2: "nextRef ?t2 = Suc (nextRef t)" "sketchesRef ?t2 = sketchesRef t"
     "set (objectsRef ?t2) \<subseteq> set (objectsRef t)"
    by simp_all
  have "r < Suc (nextRef t)" if "r \<in> set (objectsRef ?t2)" for r
  proof -
    from that t2(3) have "r \<in> set (objectsRef t)" by (rule subsetD[rotated])
    with wf have "r < nextRef t" by (simp add: wfStore_def list_all_iff)
    then show ?thesis by simp
  qed
  then have objs: "list_all (\<lambda>r. r < Suc (nextRef t)) (objectsRef ?t2 @ [nextRef t])"
    by (simp add: list_all_iff)
  have sk: "list_all (\<lambda>r. r < Suc (nextRef t)) (map fst (sketchesRef t))"
     "distinct (map fst (sketchesRef t))"
    using wf by (auto simp: wfStore_def list_all_iff)
  show ?thesis
    using objs sk t2(1,2)
    by (simp add: wfStore_def clearHighlight_def)
qed

lemma wfStore_groupSelectedHandler: "wfStore s \<Longrightarrow> wfStore (groupSelectedHandler s)"
proof -
  assume wf: "wfStore s"
  have absorb: "wfStore (t\<lparr> multiSelectedRef := m \<rparr>) = wfStore t" for t m
    by (simp add: wfStore_def)
  show ?thesis
    using wf wfStore_grouping
    by (auto simp: groupSelectedHandler_def Let_def absorb alloc_def split: option.splits)
qed


end
